theory Spec2Isabelle
  imports Main "HOL-Library.Multiset"
begin

section \<open>Round classification (determineRound)\<close>

text \<open>
  The stats service is \<open>src/unnamed/part_002\<close>, the module the other files require as
  \<open>services/nhlApi\<close>.
  The game identifier is modelled after \<open>String(gameId)\<close> has been applied, as a
  \<open>string\<close> of 8-bit characters (the identifiers of the feed are decimal numerals).
  JavaScript's \<open>parseInt\<close> (no radix argument) skips leading white space,
  reads an optional sign, switches to radix 16 after a \<open>0x\<close>/\<open>0X\<close> prefix, and reads
  the longest prefix of digits; with no digit the result is \<open>NaN\<close>, here \<open>None\<close>.
  Every comparison with \<open>NaN\<close> is false.
\<close>

definition isWhiteSpace :: "char \<Rightarrow> bool" where
  "isWhiteSpace c = ((of_char c :: nat) \<in> {9, 10, 11, 12, 13, 32, 160})"

definition digitOf :: "char \<Rightarrow> nat option" where
  "digitOf c =
     (let k = (of_char c :: nat) in
      if 48 \<le> k \<and> k \<le> 57 then Some (k - 48)
      else if 97 \<le> k \<and> k \<le> 122 then Some (k - 87)
      else if 65 \<le> k \<and> k \<le> 90 then Some (k - 55)
      else None)"

definition isRadixDigit :: "nat \<Rightarrow> char \<Rightarrow> bool" where
  "isRadixDigit radix c = (case digitOf c of None \<Rightarrow> False | Some d \<Rightarrow> d < radix)"

definition digitsValue :: "nat \<Rightarrow> string \<Rightarrow> nat" where
  "digitsValue radix ds =
     foldl (\<lambda>acc c. acc * radix + (case digitOf c of None \<Rightarrow> 0 | Some d \<Rightarrow> d)) 0 ds"

definition stripSign :: "string \<Rightarrow> int \<times> string" where
  "stripSign s =
     (case s of
        [] \<Rightarrow> (1, [])
      | c # r \<Rightarrow> if c = CHR ''-'' then (-1, r) else if c = CHR ''+'' then (1, r) else (1, s))"

definition stripPrefix :: "string \<Rightarrow> nat \<times> string" where
  "stripPrefix s =
     (if take 2 s = ''0x'' \<or> take 2 s = ''0X'' then (16, drop 2 s) else (10, s))"

definition parseInt :: "string \<Rightarrow> int option" where
  "parseInt s =
     (let (sign, s2) = stripSign (dropWhile isWhiteSpace s);
          (radix, s3) = stripPrefix s2;
          ds = takeWhile (isRadixDigit radix) s3
      in if ds = [] then None else Some (sign * int (digitsValue radix ds)))"

text \<open>\<open>str.slice(start, end)\<close>: a negative index counts from the end, both are clamped.\<close>

definition sliceIndex :: "nat \<Rightarrow> int \<Rightarrow> nat" where
  "sliceIndex n i = (if i < 0 then nat (max (int n + i) 0) else min (nat i) n)"

definition slice :: "string \<Rightarrow> int \<Rightarrow> int \<Rightarrow> string" where
  "slice s start end =
     (let from = sliceIndex (length s) start; to = sliceIndex (length s) end
      in take (to - from) (drop from s))"

definition determineRound :: "string \<Rightarrow> nat" where
  "determineRound gameIdStr =
     (if length gameIdStr < 4 then 1
      else case parseInt (slice gameIdStr (-4) (-2)) of
             None \<Rightarrow> 1
           | Some roundCode \<Rightarrow>
               if roundCode \<ge> 11 \<and> roundCode \<le> 17 then 1
               else if roundCode \<ge> 21 \<and> roundCode \<le> 27 then 2
               else if roundCode \<ge> 31 \<and> roundCode \<le> 47 then 3
               else 1)"

text \<open>
  The round code as the specification words it: the two decimal digits immediately before
  the trailing two characters of an identifier of at least four characters.
\<close>

definition isDecimalDigit :: "char \<Rightarrow> bool" where
  "isDecimalDigit c = (48 \<le> (of_char c :: nat) \<and> (of_char c :: nat) \<le> 57)"

definition embeddedCode :: "string \<Rightarrow> nat option" where
  "embeddedCode s =
     (if length s < 4 then None
      else let a = s ! (length s - 4); b = s ! (length s - 3)
           in if isDecimalDigit a \<and> isDecimalDigit b
              then Some (10 * (of_char a - 48) + (of_char b - 48))
              else None)"

section \<open>Stat aggregation (parseGameLogStats)\<close>

text \<open>
  One entry of the upstream game log. A field the upstream response leaves out is \<open>None\<close>.
  The counters are JavaScript numbers holding small integers, modelled as \<open>int\<close>.
\<close>

record game =
  gameId :: string
  decision :: "string option"
  game_shutouts :: "int option"
  goalsAgainst :: "int option"
  game_goals :: "int option"
  game_assists :: "int option"

record round_stats =
  goals :: int
  assists :: int
  wins :: int
  shutouts :: int
  gamesPlayed :: int

text \<open>
  The argument of \<open>parseGameLogStats\<close>: the response body, whose \<open>gameLog\<close> member is
  either an array of games or missing (or not an array).
\<close>

datatype game_log = NoGameLog | GameLog "game list"

definition zeroStats :: round_stats where
  "zeroStats = \<lparr>goals = 0, assists = 0, wins = 0, shutouts = 0, gamesPlayed = 0\<rparr>"

text \<open>\<open>x || 0\<close> on a numeric field: a missing field and 0 are both falsy.\<close>

definition orZero :: "int option \<Rightarrow> int" where
  "orZero v = (case v of None \<Rightarrow> 0 | Some n \<Rightarrow> n)"

definition goalieUpdate :: "game \<Rightarrow> round_stats \<Rightarrow> round_stats" where
  "goalieUpdate g st =
     (let st1 = (if decision g = Some ''W'' then st\<lparr>wins := wins st + 1\<rparr> else st);
          st2 = (case game_shutouts g of
                   None \<Rightarrow> st1
                 | Some n \<Rightarrow> if n \<noteq> 0 then st1\<lparr>shutouts := shutouts st1 + n\<rparr> else st1);
          st3 = (if goalsAgainst g = Some 0 \<and> decision g = Some ''W''
                 then st2\<lparr>shutouts := max (shutouts st2) 1\<rparr> else st2)
      in st3)"

definition skaterUpdate :: "game \<Rightarrow> round_stats \<Rightarrow> round_stats" where
  "skaterUpdate g st =
     st\<lparr>goals := goals st + orZero (game_goals g),
        assists := assists st + orZero (game_assists g)\<rparr>"

text \<open>The body of the \<open>for\<close> loop: \<open>stats\<close> maps the round number to its totals.\<close>

definition gameStep ::
  "bool \<Rightarrow> (nat \<Rightarrow> round_stats) \<Rightarrow> game \<Rightarrow> (nat \<Rightarrow> round_stats)" where
  "gameStep isGoalie stats g =
     (let round = determineRound (gameId g);
          st = (if isGoalie then goalieUpdate g (stats round) else skaterUpdate g (stats round))
      in stats(round := st\<lparr>gamesPlayed := gamesPlayed st + 1\<rparr>))"

definition parseGameLogStats :: "game_log \<Rightarrow> bool \<Rightarrow> (nat \<Rightarrow> round_stats)" where
  "parseGameLogStats gameLog isGoalie =
     (case gameLog of
        NoGameLog \<Rightarrow> (\<lambda>_. zeroStats)
      | GameLog games \<Rightarrow> foldl (gameStep isGoalie) (\<lambda>_. zeroStats) games)"

section \<open>The database\<close>

text \<open>
  The schema is \<open>src/unnamed/part_008\<close>; the tables \<open>rounds\<close> and
  \<open>team_qualifications\<close> are created in \<open>src/src/server.js\<close>.
  Tables are lists of rows; a table that the code only reaches through a unique key is a
  map from that key. Identifiers (UUID and SERIAL columns) are integers and timestamps are
  a number of clock ticks. The \<open>CHECK\<close> constraints on
  \<open>players.position\<close> and \<open>teams.conference\<close> make both columns enumerations. Columns
  are named after the aliases the queries use (\<open>u\<close>, \<open>t\<close>, \<open>p\<close>, \<open>ps\<close>, \<open>r\<close>,
  \<open>rp\<close>). Integer columns hold game statistics and costs between 1 and 5, far from the
  32-bit range, and are modelled as \<open>int\<close>.
\<close>

type_synonym ident = int

type_synonym timestamp = nat

datatype position = Forward | Defense | Goalie

datatype conference = Western | Eastern

record user =
  u_id :: ident
  u_username :: string
  u_is_verified :: bool

record team =
  t_abbrev :: string
  t_conference :: conference

record player =
  p_id :: ident
  p_nhl_id :: ident
  p_team_abbrev :: "string option"
  p_position :: position
  p_cost :: int
  p_is_active :: bool

record stat_row =
  ps_goals :: int
  ps_assists :: int
  ps_wins :: int
  ps_shutouts :: int
  ps_games_played :: int
  ps_updated_at :: timestamp

record round_row =
  round_number :: int
  pick_deadline :: "timestamp option"

record team_qualification =
  tq_round_number :: int
  tq_team_abbrev :: string
  tq_qualified :: bool

record roster =
  r_id :: ident
  r_user_id :: ident
  r_round :: int
  r_is_submitted :: bool
  r_submitted_at :: "timestamp option"

record roster_player =
  rp_roster_id :: ident
  rp_player_id :: ident
  rp_is_star :: bool

datatype setting_value = JNull | JBool bool | JNumber int | JTimestamp timestamp | JText string

datatype log_status = Running | Completed | Failed

record update_log =
  log_id :: ident
  log_completed_at :: "timestamp option"
  log_players_updated :: nat
  log_errors :: "string list"
  log_status :: log_status

record database =
  users :: "user list"
  teams :: "team list"
  players :: "player list"
  player_stats :: "ident \<times> int \<rightharpoonup> stat_row"
  rounds :: "round_row list"
  team_qualifications :: "team_qualification list"
  rosters :: "roster list"
  roster_players :: "roster_player list"
  tiebreakers :: "ident \<times> int \<rightharpoonup> int option \<times> int option"
  settings :: "string \<rightharpoonup> setting_value"
  stat_update_log :: "update_log list"

section \<open>The sync orchestrator (updateAllPlayerStats)\<close>

text \<open>
  \<open>getPlayerGameLog\<close> is the upstream feed: for an NHL player id it gives the response
  body, an empty log after a 404, or \<open>null\<close> (\<open>None\<close>) after any other transport
  failure. The feed is a parameter of the run. Database statements are taken to succeed,
  so the per-player \<open>catch\<close> and the fatal \<open>catch\<close> are never entered and the error list
  of a run stays empty. \<open>NOW()\<close> is the clock reading \<open>now\<close> of the run.
\<close>

type_synonym feed = "ident \<Rightarrow> game_log option"

text \<open>\<open>INSERT INTO player_stats ... ON CONFLICT (player_id, round) DO UPDATE SET ...\<close>\<close>

definition upsertPlayerStats ::
  "timestamp \<Rightarrow> ident \<Rightarrow> int \<Rightarrow> round_stats \<Rightarrow> (ident \<times> int \<rightharpoonup> stat_row)
     \<Rightarrow> (ident \<times> int \<rightharpoonup> stat_row)" where
  "upsertPlayerStats now pid round st tbl =
     tbl((pid, round) \<mapsto>
       \<lparr>ps_goals = goals st, ps_assists = assists st, ps_wins = wins st,
        ps_shutouts = shutouts st, ps_games_played = gamesPlayed st, ps_updated_at = now\<rparr>)"

text \<open>The body of the loop over the active players; the state is the table and the counter.\<close>

definition updatePlayer ::
  "feed \<Rightarrow> timestamp \<Rightarrow> (ident \<times> int \<rightharpoonup> stat_row) \<times> nat \<Rightarrow> player
     \<Rightarrow> (ident \<times> int \<rightharpoonup> stat_row) \<times> nat" where
  "updatePlayer getPlayerGameLog now acc pl =
     (let (tbl, playersUpdated) = acc;
          isGoalie = (p_position pl = Goalie)
      in case getPlayerGameLog (p_nhl_id pl) of
           None \<Rightarrow> (tbl, playersUpdated)
         | Some gameLog \<Rightarrow>
             let stats = parseGameLogStats gameLog isGoalie
             in (foldl (\<lambda>t round. upsertPlayerStats now (p_id pl) (int round) (stats round) t)
                   tbl [1, 2, 3],
                 playersUpdated + 1))"

text \<open>\<open>UPDATE settings SET value = v WHERE key = k\<close> changes a row only if it exists.\<close>

definition updateSetting ::
  "string \<Rightarrow> setting_value \<Rightarrow> (string \<rightharpoonup> setting_value) \<Rightarrow> (string \<rightharpoonup> setting_value)" where
  "updateSetting k v tbl = (if k \<in> dom tbl then tbl(k \<mapsto> v) else tbl)"

definition nextLogId :: "update_log list \<Rightarrow> ident" where
  "nextLogId logs = foldl max 0 (map log_id logs) + 1"

definition startUpdateLog :: "update_log list \<Rightarrow> ident \<times> update_log list" where
  "startUpdateLog logs =
     (let logId = nextLogId logs
      in (logId, logs @ [\<lparr>log_id = logId, log_completed_at = None, log_players_updated = 0,
                           log_errors = [], log_status = Running\<rparr>]))"

definition completeUpdateLog ::
  "timestamp \<Rightarrow> ident \<Rightarrow> nat \<Rightarrow> string list \<Rightarrow> log_status \<Rightarrow> update_log list
     \<Rightarrow> update_log list" where
  "completeUpdateLog now logId playersUpdated errors status logs =
     map (\<lambda>l. if log_id l = logId
               then l\<lparr>log_completed_at := Some now, log_players_updated := playersUpdated,
                      log_errors := errors, log_status := status\<rparr>
               else l) logs"

record sync_result =
  success :: bool
  playersUpdated :: nat
  errors :: "string list"

definition updateAllPlayerStats ::
  "feed \<Rightarrow> timestamp \<Rightarrow> database \<Rightarrow> sync_result \<times> database" where
  "updateAllPlayerStats getPlayerGameLog now db =
     (let (logId, logs1) = startUpdateLog (stat_update_log db);
          active = filter p_is_active (players db);
          (tbl, updated) = foldl (updatePlayer getPlayerGameLog now) (player_stats db, 0) active;
          settings1 = updateSetting ''stats_last_updated'' (JTimestamp now) (settings db);
          settings2 = updateSetting ''stats_verified'' (JBool True) settings1;
          logs2 = completeUpdateLog now logId updated [] Completed logs1
      in (\<lparr>success = True, playersUpdated = updated, errors = []\<rparr>,
          db\<lparr>player_stats := tbl, settings := settings2, stat_update_log := logs2\<rparr>))"

section \<open>Roster save and submit\<close>

text \<open>
  The repository holds the roster routes twice. \<open>src/src/routes/rosters.js\<close> is the
  module \<open>server.js\<close> mounts; \<open>src/unnamed/part_006\<close> is a second version of the same
  routes (its header names it \<open>routes/rosters.js\<close>) that wraps the save in a
  transaction and checks team qualification, and has no test of the submission flag. Both
  are embedded: the handlers of the mounted module are \<open>saveRoster\<close> and
  \<open>submitRoster\<close>, those of the second version carry the suffix \<open>part006\<close>.

  The tables are those of \<open>schema.sql\<close> (\<open>src/unnamed/part_008\<close>) and of the set-up in
  \<open>server.js\<close>. Keys are values of the type \<open>ident\<close>. The mounted module passes the
  selected player ids as \<open>$1::int[]\<close>, so an id outside the \<open>INT\<close> range makes its
  query fail; the second version passes them uncast. The mounted module names the two
  answer columns of \<open>tiebreakers\<close> \<open>question_1\<close> and \<open>question_2\<close>, the second version
  and \<open>schema.sql\<close> name them \<open>question1_answer\<close> and \<open>question2_answer\<close>: they are
  modelled as the same two \<open>INT\<close> columns.

  The request body of \<open>PUT /:round\<close>: a conference or a position list that is missing
  is skipped; a missing \<open>selections\<close> object makes the handler throw. \<open>stars\<close> names at
  most one player id per role key.
\<close>

record conference_selections =
  forwards :: "ident list option"
  defense :: "ident list option"
  goalies :: "ident list option"

record selections =
  western :: "conference_selections option"
  eastern :: "conference_selections option"

record stars =
  star_forward :: "ident option"
  star_defense :: "ident option"
  star_goalie :: "ident option"

record tiebreaker_answers =
  q1 :: "int option"
  q2 :: "int option"

text \<open>
  The answers of the handlers. A foreign-key violation (SQLSTATE 23503) and a unique
  violation (23505) are answered by the mounted module with status 400 and the messages
  modelled by \<open>InvalidPlayerSelection\<close> and \<open>DuplicatePlayer\<close>; every other exception
  is status 500, \<open>ServerError\<close>.
\<close>

datatype http_error =
    InvalidRound
  | DeadlineNotSet
  | RoundLocked
  | AlreadySubmitted
  | OverSalaryCap
  | NotQualified
  | NoRosterFound
  | RosterIncomplete
  | InvalidPlayerSelection
  | DuplicatePlayer
  | ServerError

datatype save_ok = SavedEmpty | Saved

definition SALARY_CAP :: int where
  "SALARY_CAP = 30"

text \<open>A value PostgreSQL accepts for an \<open>INT\<close> column or an \<open>int\<close> parameter.\<close>

definition pgInteger :: "int \<Rightarrow> bool" where
  "pgInteger n = (- 2147483648 \<le> n \<and> n \<le> 2147483647)"

definition pgIntegerOrNull :: "int option \<Rightarrow> bool" where
  "pgIntegerOrNull v = (case v of None \<Rightarrow> True | Some n \<Rightarrow> pgInteger n)"

text \<open>The foreign keys \<open>rosters.user_id\<close> and \<open>tiebreakers.user_id\<close> refer to \<open>users\<close>.\<close>

definition userExists :: "database \<Rightarrow> ident \<Rightarrow> bool" where
  "userExists db userId = (userId \<in> set (map u_id (users db)))"

text \<open>\<open>SELECT pick_deadline FROM rounds WHERE round_number = $1\<close>, first row.\<close>

definition lockResult :: "database \<Rightarrow> int \<Rightarrow> round_row option" where
  "lockResult db round = find (\<lambda>row. round_number row = round) (rounds db)"

text \<open>\<open>SELECT id, is_submitted FROM rosters WHERE user_id = $1 AND round = $2\<close>, first row.\<close>

definition rosterResult :: "database \<Rightarrow> ident \<Rightarrow> int \<Rightarrow> roster option" where
  "rosterResult db userId round =
     find (\<lambda>r. r_user_id r = userId \<and> r_round r = round) (rosters db)"

text \<open>\<open>INSERT INTO rosters (user_id, round) VALUES ($1, $2) RETURNING id\<close>: a fresh id.\<close>

definition newRosterId :: "roster list \<Rightarrow> ident" where
  "newRosterId rs = foldl max 0 (map r_id rs) + 1"

definition newRoster :: "database \<Rightarrow> ident \<Rightarrow> int \<Rightarrow> roster" where
  "newRoster db userId round =
     \<lparr>r_id = newRosterId (rosters db), r_user_id = userId, r_round = round,
      r_is_submitted = False, r_submitted_at = None\<rparr>"

definition positionLists :: "conference_selections option \<Rightarrow> ident list" where
  "positionLists c =
     (case c of
        None \<Rightarrow> []
      | Some sel \<Rightarrow> concat (map (\<lambda>pos. case pos sel of None \<Rightarrow> [] | Some ids \<Rightarrow> ids)
                            [forwards, defense, goalies]))"

definition collectPlayerIds :: "selections \<Rightarrow> ident list" where
  "collectPlayerIds sel = positionLists (western sel) @ positionLists (eastern sel)"

subsection \<open>The save handler of the mounted module\<close>

text \<open>
  \<open>SELECT p.id, p.cost, p.position, t.conference FROM players p JOIN teams t ON
  p.team_abbrev = t.abbrev WHERE p.id = ANY($1::int[])\<close>: a selected player without a
  team has no row.
\<close>

type_synonym player_data = "ident \<times> int \<times> position \<times> conference"

definition playerData :: "database \<Rightarrow> ident list \<Rightarrow> player_data list" where
  "playerData db allPlayers =
     concat (map (\<lambda>p.
       map (\<lambda>t. (p_id p, p_cost p, p_position p, t_conference t))
         (filter (\<lambda>t. p_team_abbrev p = Some (t_abbrev t)) (teams db)))
       (filter (\<lambda>p. p_id p \<in> set allPlayers) (players db)))"

text \<open>\<open>playerData.rows.reduce((sum, p) => sum + parseFloat(p.cost), 0)\<close>\<close>

definition totalCost :: "player_data list \<Rightarrow> int" where
  "totalCost rows = sum_list (map (\<lambda>(pid, cost, pos, conf). cost) rows)"

text \<open>
  The insert loop over the rows of \<open>playerData\<close>. Reading \<open>stars.forward\<close> of a missing
  \<open>stars\<close> object throws; a row that breaks the unique key \<open>(roster_id, player_id)\<close>
  raises 23505. There is no transaction: the rows inserted before a failure stay.
\<close>

fun insertPlayerData ::
  "stars option \<Rightarrow> ident \<Rightarrow> player_data list \<Rightarrow> roster_player list
     \<Rightarrow> http_error option \<times> roster_player list" where
  "insertPlayerData st rosterId [] tbl = (None, tbl)"
| "insertPlayerData st rosterId (row # rest) tbl =
     (case st of
        None \<Rightarrow> (Some ServerError, tbl)
      | Some s \<Rightarrow>
          if \<exists>rp \<in> set tbl. rp_roster_id rp = rosterId \<and> rp_player_id rp = fst row
          then (Some DuplicatePlayer, tbl)
          else insertPlayerData st rosterId rest
                 (tbl @ [\<lparr>rp_roster_id = rosterId, rp_player_id = fst row,
                          rp_is_star = (star_forward s = Some (fst row) \<or>
                                        star_defense s = Some (fst row) \<or>
                                        star_goalie s = Some (fst row))\<rparr>]))"

text \<open>
  \<open>INSERT INTO tiebreakers ... ON CONFLICT (user_id, round) DO UPDATE\<close> with the answers
  as sent. An answer outside the \<open>INT\<close> range fails (500); a new row for a user that does
  not exist breaks the foreign key (23503).
\<close>

definition upsertTiebreakers ::
  "database \<Rightarrow> ident \<Rightarrow> int \<Rightarrow> int option \<Rightarrow> int option \<Rightarrow> http_error + database" where
  "upsertTiebreakers db userId round a1 a2 =
     (if \<not> pgIntegerOrNull a1 \<or> \<not> pgIntegerOrNull a2 then Inl ServerError
      else if (userId, round) \<notin> dom (tiebreakers db) \<and> \<not> userExists db userId
      then Inl InvalidPlayerSelection
      else Inr (db\<lparr>tiebreakers := (tiebreakers db)((userId, round) \<mapsto> (a1, a2))\<rparr>))"

text \<open>
  The handler from the collection of the player ids on; \<open>db\<close> already holds the effect
  of the statements before (the delete, or the new roster).
\<close>

definition savePlayers ::
  "database \<Rightarrow> ident \<Rightarrow> ident \<Rightarrow> int \<Rightarrow> selections option \<Rightarrow> stars option
     \<Rightarrow> tiebreaker_answers option \<Rightarrow> (http_error + save_ok) \<times> database" where
  "savePlayers db rosterId userId round sel st tb =
     (case sel of
        None \<Rightarrow> (Inl ServerError, db)
      | Some s \<Rightarrow>
          (let allPlayers = collectPlayerIds s
           in if allPlayers = [] then (Inr SavedEmpty, db)
              else if \<exists>pid \<in> set allPlayers. \<not> pgInteger pid then (Inl ServerError, db)
              else if totalCost (playerData db allPlayers) > SALARY_CAP
              then (Inl OverSalaryCap, db)
              else (case insertPlayerData st rosterId (playerData db allPlayers)
                           (roster_players db) of
                      (Some e, tbl) \<Rightarrow> (Inl e, db\<lparr>roster_players := tbl\<rparr>)
                    | (None, tbl) \<Rightarrow>
                        (case tb of
                           None \<Rightarrow> (Inr Saved, db\<lparr>roster_players := tbl\<rparr>)
                         | Some a \<Rightarrow>
                             (case upsertTiebreakers (db\<lparr>roster_players := tbl\<rparr>)
                                     userId round (q1 a) (q2 a) of
                                Inl e \<Rightarrow> (Inl e, db\<lparr>roster_players := tbl\<rparr>)
                              | Inr db' \<Rightarrow> (Inr Saved, db'))))))"

text \<open>
  \<open>router.put('/:round')\<close> of \<open>src/src/routes/rosters.js\<close>. \<open>parseInt\<close> of a
  non-numeric parameter is \<open>NaN\<close>, which passes the range test and then fails in the
  first query (status 500). A submitted roster is refused before the only \<open>DELETE\<close>.
  A new roster for a user that does not exist breaks the foreign key (23503).
\<close>

definition saveRoster ::
  "database \<Rightarrow> timestamp \<Rightarrow> ident \<Rightarrow> string \<Rightarrow> selections option \<Rightarrow> stars option
     \<Rightarrow> tiebreaker_answers option \<Rightarrow> (http_error + save_ok) \<times> database" where
  "saveRoster db now userId roundParam sel st tb =
     (case parseInt roundParam of
        None \<Rightarrow> (Inl ServerError, db)
      | Some round \<Rightarrow>
          if round < 1 \<or> round > 3 then (Inl InvalidRound, db)
          else (case lockResult db round of
                  None \<Rightarrow> (Inl DeadlineNotSet, db)
                | Some row \<Rightarrow>
                    (case pick_deadline row of
                       None \<Rightarrow> (Inl DeadlineNotSet, db)
                     | Some lockDate \<Rightarrow>
                         if now > lockDate then (Inl RoundLocked, db)
                         else (case rosterResult db userId round of
                                 Some r \<Rightarrow>
                                   if r_is_submitted r then (Inl AlreadySubmitted, db)
                                   else savePlayers
                                          (db\<lparr>roster_players :=
                                                filter (\<lambda>rp. rp_roster_id rp \<noteq> r_id r)
                                                  (roster_players db)\<rparr>)
                                          (r_id r) userId round sel st tb
                               | None \<Rightarrow>
                                   if \<not> userExists db userId
                                   then (Inl InvalidPlayerSelection, db)
                                   else savePlayers
                                          (db\<lparr>rosters :=
                                                rosters db @ [newRoster db userId round]\<rparr>)
                                          (newRosterId (rosters db)) userId round sel st tb))))"

subsection \<open>The save handler of the second version\<close>

text \<open>\<open>SELECT COALESCE(SUM(cost), 0) FROM players WHERE id = ANY($1)\<close>\<close>

definition salaryTotal :: "database \<Rightarrow> ident list \<Rightarrow> int" where
  "salaryTotal db playerIds =
     sum_list (map p_cost (filter (\<lambda>p. p_id p \<in> set playerIds) (players db)))"

text \<open>
  The qualification query counts the selected players whose team is \<open>NOT IN\<close> the teams
  qualified for the round. For a player without a team the test is \<open>NULL\<close>, so the
  player is not counted, unless the list of qualified teams is empty.
\<close>

definition qualifiedTeams :: "database \<Rightarrow> int \<Rightarrow> string list" where
  "qualifiedTeams db round =
     map tq_team_abbrev
       (filter (\<lambda>q. tq_round_number q = round \<and> tq_qualified q) (team_qualifications db))"

definition invalidCount :: "database \<Rightarrow> ident list \<Rightarrow> int \<Rightarrow> nat" where
  "invalidCount db playerIds round =
     length (filter (\<lambda>p. p_id p \<in> set playerIds \<and>
                          (case p_team_abbrev p of
                             None \<Rightarrow> qualifiedTeams db round = []
                           | Some a \<Rightarrow> a \<notin> set (qualifiedTeams db round)))
               (players db))"

text \<open>\<open>Object.values(stars || {}).includes(playerId)\<close>\<close>

definition starValues :: "stars option \<Rightarrow> ident option list" where
  "starValues st =
     (case st of None \<Rightarrow> [] | Some s \<Rightarrow> [star_forward s, star_defense s, star_goalie s])"

definition isStarPick :: "stars option \<Rightarrow> ident \<Rightarrow> bool" where
  "isStarPick st playerId = (Some playerId \<in> set (starValues st))"

text \<open>
  The insert loop. A row that breaks the unique key \<open>(roster_id, player_id)\<close> or the
  foreign key to \<open>players\<close> raises, which the handler answers with a rollback and status
  500.
\<close>

fun insertRosterPlayers ::
  "player list \<Rightarrow> stars option \<Rightarrow> ident \<Rightarrow> ident list \<Rightarrow> roster_player list
     \<Rightarrow> roster_player list option" where
  "insertRosterPlayers ps st rosterId [] tbl = Some tbl"
| "insertRosterPlayers ps st rosterId (playerId # rest) tbl =
     (if playerId \<notin> set (map p_id ps)
         \<or> (\<exists>rp \<in> set tbl. rp_roster_id rp = rosterId \<and> rp_player_id rp = playerId)
      then None
      else insertRosterPlayers ps st rosterId rest
             (tbl @ [\<lparr>rp_roster_id = rosterId, rp_player_id = playerId,
                      rp_is_star = isStarPick st playerId\<rparr>]))"

text \<open>\<open>tiebreakers.q1 || null\<close>: the answer 0 is falsy and is stored as \<open>NULL\<close>.\<close>

definition orNull :: "int option \<Rightarrow> int option" where
  "orNull a = (if a = Some 0 then None else a)"

text \<open>
  The statements between \<open>BEGIN\<close> and \<open>COMMIT\<close>. Every rejection and every exception
  (the foreign key of a new roster or a new tiebreaker row to \<open>users\<close>, an answer
  outside the \<open>INT\<close> range, a failing insert) rolls the transaction back, so the database
  of a rejected save is the one the handler started from.
\<close>

definition saveTransaction ::
  "database \<Rightarrow> ident \<Rightarrow> int \<Rightarrow> selections option \<Rightarrow> stars option \<Rightarrow> tiebreaker_answers option
     \<Rightarrow> (http_error + ident) \<times> database" where
  "saveTransaction db userId round sel st tb =
     (case (case rosterResult db userId round of
              None \<Rightarrow> if userExists db userId
                       then Some (newRosterId (rosters db),
                                  rosters db @ [newRoster db userId round])
                       else None
            | Some r \<Rightarrow> Some (r_id r, rosters db)) of
        None \<Rightarrow> (Inl ServerError, db)
      | Some (rosterId, rosters1) \<Rightarrow>
          (case sel of
             None \<Rightarrow> (Inl ServerError, db)
           | Some s \<Rightarrow>
               (let playerIds = collectPlayerIds s;
                    cleared = filter (\<lambda>rp. rp_roster_id rp \<noteq> rosterId) (roster_players db)
                in if playerIds \<noteq> [] \<and> salaryTotal db playerIds > SALARY_CAP
                   then (Inl OverSalaryCap, db)
                   else if playerIds \<noteq> [] \<and> invalidCount db playerIds round > 0
                   then (Inl NotQualified, db)
                   else (case insertRosterPlayers (players db) st rosterId playerIds cleared of
                           None \<Rightarrow> (Inl ServerError, db)
                         | Some inserted \<Rightarrow>
                             (case tb of
                                None \<Rightarrow>
                                  (Inr rosterId,
                                   db\<lparr>rosters := rosters1, roster_players := inserted\<rparr>)
                              | Some a \<Rightarrow>
                                  (case upsertTiebreakers
                                          (db\<lparr>rosters := rosters1, roster_players := inserted\<rparr>)
                                          userId round (orNull (q1 a)) (orNull (q2 a)) of
                                     Inl e \<Rightarrow> (Inl ServerError, db)
                                   | Inr db' \<Rightarrow> (Inr rosterId, db')))))))"

text \<open>\<open>router.put('/:round')\<close> of \<open>src/unnamed/part_006\<close>.\<close>

definition saveRoster_part006 ::
  "database \<Rightarrow> timestamp \<Rightarrow> ident \<Rightarrow> string \<Rightarrow> selections option \<Rightarrow> stars option
     \<Rightarrow> tiebreaker_answers option \<Rightarrow> (http_error + ident) \<times> database" where
  "saveRoster_part006 db now userId roundParam sel st tb =
     (case parseInt roundParam of
        None \<Rightarrow> (Inl ServerError, db)
      | Some round \<Rightarrow>
          if round < 1 \<or> round > 3 then (Inl InvalidRound, db)
          else (case lockResult db round of
                  None \<Rightarrow> (Inl DeadlineNotSet, db)
                | Some row \<Rightarrow>
                    (case pick_deadline row of
                       None \<Rightarrow> (Inl DeadlineNotSet, db)
                     | Some lockDate \<Rightarrow>
                         if now > lockDate then (Inl RoundLocked, db)
                         else saveTransaction db userId round sel st tb)))"

subsection \<open>The submit handlers\<close>

text \<open>
  The rows of the completeness query of one selection: the selection joined with its
  player and the player's team. A selection of a player without a team has no row.
\<close>

definition selectionRows :: "database \<Rightarrow> roster_player \<Rightarrow> (position \<times> conference \<times> bool) list" where
  "selectionRows db rp =
     concat (map (\<lambda>p.
       map (\<lambda>t. (p_position p, t_conference t, rp_is_star rp))
         (filter (\<lambda>t. p_team_abbrev p = Some (t_abbrev t)) (teams db)))
       (filter (\<lambda>p. p_id p = rp_player_id rp) (players db)))"

definition selectionsOf :: "database \<Rightarrow> ident \<Rightarrow> roster_player list" where
  "selectionsOf db rosterId = filter (\<lambda>rp. rp_roster_id rp = rosterId) (roster_players db)"

definition playersResult :: "database \<Rightarrow> ident \<Rightarrow> (position \<times> conference \<times> bool) list" where
  "playersResult db rosterId = concat (map (selectionRows db) (selectionsOf db rosterId))"

definition counts ::
  "(position \<times> conference \<times> bool) list \<Rightarrow> conference \<Rightarrow> position \<Rightarrow> nat" where
  "counts rows conf pos = length (filter (\<lambda>(p, c, s). c = conf \<and> p = pos) rows)"

definition starCount :: "(position \<times> conference \<times> bool) list \<Rightarrow> nat" where
  "starCount rows = length (filter (\<lambda>(p, c, s). s) rows)"

definition isComplete :: "(position \<times> conference \<times> bool) list \<Rightarrow> bool" where
  "isComplete rows =
     (counts rows Western Forward = 3 \<and> counts rows Western Defense = 2 \<and>
      counts rows Western Goalie = 1 \<and>
      counts rows Eastern Forward = 3 \<and> counts rows Eastern Defense = 2 \<and>
      counts rows Eastern Goalie = 1 \<and>
      starCount rows = 3)"

text \<open>\<open>UPDATE rosters SET is_submitted = true, submitted_at = NOW() WHERE id = $1\<close>\<close>

definition markSubmitted :: "database \<Rightarrow> timestamp \<Rightarrow> ident \<Rightarrow> database" where
  "markSubmitted db now rosterId =
     db\<lparr>rosters := map (\<lambda>x. if r_id x = rosterId
                             then x\<lparr>r_is_submitted := True, r_submitted_at := Some now\<rparr>
                             else x) (rosters db)\<rparr>"

text \<open>\<open>router.post('/:round/submit')\<close> of \<open>src/src/routes/rosters.js\<close>.\<close>

definition submitRoster ::
  "database \<Rightarrow> timestamp \<Rightarrow> ident \<Rightarrow> string \<Rightarrow> (http_error + unit) \<times> database" where
  "submitRoster db now userId roundParam =
     (case parseInt roundParam of
        None \<Rightarrow> (Inl ServerError, db)
      | Some round \<Rightarrow>
          if round < 1 \<or> round > 3 then (Inl InvalidRound, db)
          else (case lockResult db round of
                  None \<Rightarrow> (Inl DeadlineNotSet, db)
                | Some row \<Rightarrow>
                    (case pick_deadline row of
                       None \<Rightarrow> (Inl DeadlineNotSet, db)
                     | Some lockDate \<Rightarrow>
                         if now > lockDate then (Inl RoundLocked, db)
                         else (case rosterResult db userId round of
                                 None \<Rightarrow> (Inl NoRosterFound, db)
                               | Some r \<Rightarrow>
                                   if r_is_submitted r then (Inl AlreadySubmitted, db)
                                   else if \<not> isComplete (playersResult db (r_id r))
                                   then (Inl RosterIncomplete, db)
                                   else (Inr (), markSubmitted db now (r_id r))))))"

text \<open>
  \<open>router.post('/:round/submit')\<close> of \<open>src/unnamed/part_006\<close>. It has no range test on
  the round: a parameter that is \<open>NaN\<close> or outside the range of the \<open>INT\<close> column makes
  the first query fail (status 500). It does not read the submission flag.
\<close>

definition submitRoster_part006 ::
  "database \<Rightarrow> timestamp \<Rightarrow> ident \<Rightarrow> string \<Rightarrow> (http_error + unit) \<times> database" where
  "submitRoster_part006 db now userId roundParam =
     (case parseInt roundParam of
        None \<Rightarrow> (Inl ServerError, db)
      | Some round \<Rightarrow>
          if \<not> pgInteger round then (Inl ServerError, db)
          else (case lockResult db round of
                  None \<Rightarrow> (Inl DeadlineNotSet, db)
                | Some row \<Rightarrow>
                    (case pick_deadline row of
                       None \<Rightarrow> (Inl DeadlineNotSet, db)
                     | Some lockDate \<Rightarrow>
                         if now > lockDate then (Inl RoundLocked, db)
                         else (case rosterResult db userId round of
                                 None \<Rightarrow> (Inl NoRosterFound, db)
                               | Some r \<Rightarrow>
                                   if \<not> isComplete (playersResult db (r_id r))
                                   then (Inl RosterIncomplete, db)
                                   else (Inr (), markSubmitted db now (r_id r))))))"

section \<open>The leaderboard view\<close>

text \<open>
  \<open>a LEFT JOIN b ON c\<close> keeps a row of \<open>a\<close> without a match, with \<open>NULL\<close> for the
  columns of \<open>b\<close>: the matches of one row are \<open>[None]\<close> when there are none.
\<close>

definition leftJoin :: "'a list \<Rightarrow> 'a option list" where
  "leftJoin matches = (if matches = [] then [None] else map Some matches)"

text \<open>The points expression of one selection with its player and its snapshot.\<close>

definition selectionPoints :: "position \<Rightarrow> bool \<Rightarrow> stat_row \<Rightarrow> int" where
  "selectionPoints pos is_star ps =
     (if pos = Forward \<or> pos = Defense
      then (ps_goals ps + ps_assists ps) * (if is_star then 2 else 1)
      else (ps_wins ps * 2 + ps_shutouts ps) * (if is_star then 2 else 1))"

text \<open>
  A row of the four joins for one user: the submitted roster, the selection, the player
  and the snapshot of the roster's round, each possibly \<open>NULL\<close>.
\<close>

type_synonym joined_row =
  "roster option \<times> roster_player option \<times> player option \<times> stat_row option"

definition joinedRows :: "database \<Rightarrow> user \<Rightarrow> joined_row list" where
  "joinedRows db u =
     concat (map (\<lambda>r.
       concat (map (\<lambda>rp.
         map (\<lambda>p. (r, rp, p,
                    (case (r, p) of
                       (Some r', Some p') \<Rightarrow> player_stats db (p_id p', r_round r')
                     | _ \<Rightarrow> None)))
           (leftJoin (case rp of
                        None \<Rightarrow> []
                      | Some rp' \<Rightarrow> filter (\<lambda>p. p_id p = rp_player_id rp') (players db))))
         (leftJoin (case r of
                      None \<Rightarrow> []
                    | Some r' \<Rightarrow> filter (\<lambda>rp. rp_roster_id rp = r_id r') (roster_players db)))))
       (leftJoin (filter (\<lambda>r. r_user_id r = u_id u \<and> r_is_submitted r) (rosters db))))"

text \<open>The value of the \<open>CASE\<close> expression on a joined row; \<open>None\<close> is \<open>NULL\<close>.\<close>

definition rowPoints :: "joined_row \<Rightarrow> int option" where
  "rowPoints row =
     (case row of
        (r, Some rp, Some p, Some ps) \<Rightarrow> Some (selectionPoints (p_position p) (rp_is_star rp) ps)
      | _ \<Rightarrow> None)"

text \<open>\<open>CASE WHEN ps.round = n THEN ... ELSE 0 END\<close>; a snapshot has its roster's round.\<close>

definition rowRoundPoints :: "int \<Rightarrow> joined_row \<Rightarrow> int option" where
  "rowRoundPoints n row =
     (case row of
        (Some r, rp, p, Some ps) \<Rightarrow> if r_round r = n then rowPoints row else Some 0
      | _ \<Rightarrow> Some 0)"

text \<open>\<open>COALESCE(SUM(e), 0)\<close>: \<open>SUM\<close> skips \<open>NULL\<close> and is \<open>NULL\<close> over no value at all.\<close>

definition coalesceSum :: "int option list \<Rightarrow> int" where
  "coalesceSum vs = sum_list (map (\<lambda>v. case v of None \<Rightarrow> 0 | Some n \<Rightarrow> n) vs)"

record leaderboard_row =
  user_id :: ident
  username :: string
  total_points :: int
  r1_points :: int
  r2_points :: int
  r3_points :: int

text \<open>
  \<open>FROM users u LEFT JOIN rosters r ... LEFT JOIN player_stats ps ...\<close>: every user
  with each of its joined rows, and of these the rows \<open>WHERE u.is_verified = true\<close>.
\<close>

definition fromRows :: "database \<Rightarrow> (user \<times> joined_row) list" where
  "fromRows db = concat (map (\<lambda>u. map (\<lambda>row. (u, row)) (joinedRows db u)) (users db))"

definition whereRows :: "database \<Rightarrow> (user \<times> joined_row) list" where
  "whereRows db = filter (\<lambda>(u, row). u_is_verified u) (fromRows db)"

text \<open>
  \<open>GROUP BY u.id, u.username\<close>: one group for each key that occurs among the rows, and
  one output row for each group with the aggregates over the rows of the group.
\<close>

definition groupKey :: "user \<Rightarrow> ident \<times> string" where
  "groupKey u = (u_id u, u_username u)"

definition groupKeys :: "database \<Rightarrow> (ident \<times> string) list" where
  "groupKeys db = remdups (map (\<lambda>(u, row). groupKey u) (whereRows db))"

definition groupRows :: "database \<Rightarrow> ident \<times> string \<Rightarrow> joined_row list" where
  "groupRows db k = map snd (filter (\<lambda>(u, row). groupKey u = k) (whereRows db))"

definition aggregateRow :: "ident \<times> string \<Rightarrow> joined_row list \<Rightarrow> leaderboard_row" where
  "aggregateRow k rows =
     \<lparr>user_id = fst k, username = snd k,
      total_points = coalesceSum (map rowPoints rows),
      r1_points = coalesceSum (map (rowRoundPoints 1) rows),
      r2_points = coalesceSum (map (rowRoundPoints 2) rows),
      r3_points = coalesceSum (map (rowRoundPoints 3) rows)\<rparr>"

definition leaderboardGroups :: "database \<Rightarrow> leaderboard_row list" where
  "leaderboardGroups db = map (\<lambda>k. aggregateRow k (groupRows db k)) (groupKeys db)"

text \<open>
  \<open>ORDER BY total_points DESC\<close>: a result of the view is any arrangement of the output
  rows in which the totals descend; the order of rows with equal totals is left open.
\<close>

definition leaderboard :: "database \<Rightarrow> leaderboard_row list \<Rightarrow> bool" where
  "leaderboard db out =
     (mset out = mset (leaderboardGroups db) \<and>
      sorted_wrt (\<lambda>a b. total_points a \<ge> total_points b) out)"

text \<open>
  The output row computed from the joined rows of one user; where no other user has the
  same id and name (\<open>users.id\<close> is the primary key) it is the row of the user's group.
\<close>

definition leaderboardRow :: "database \<Rightarrow> user \<Rightarrow> leaderboard_row" where
  "leaderboardRow db u =
     (let rows = joinedRows db u
      in \<lparr>user_id = u_id u, username = u_username u,
          total_points = coalesceSum (map rowPoints rows),
          r1_points = coalesceSum (map (rowRoundPoints 1) rows),
          r2_points = coalesceSum (map (rowRoundPoints 2) rows),
          r3_points = coalesceSum (map (rowRoundPoints 3) rows)\<rparr>)"

section \<open>Notions used to state and prove the properties\<close>

text \<open>The cumulative values of a snapshot, without its last-updated timestamp.\<close>

definition snapshotValues :: "stat_row \<Rightarrow> int \<times> int \<times> int \<times> int \<times> int" where
  "snapshotValues ps =
     (ps_goals ps, ps_assists ps, ps_wins ps, ps_shutouts ps, ps_games_played ps)"

text \<open>The upserts one player contributes to a run, in the order the loop issues them.\<close>

definition playerWrites ::
  "feed \<Rightarrow> timestamp \<Rightarrow> player \<Rightarrow> ((ident \<times> int) \<times> stat_row) list" where
  "playerWrites getPlayerGameLog now pl =
     (case getPlayerGameLog (p_nhl_id pl) of
        None \<Rightarrow> []
      | Some gameLog \<Rightarrow>
          map (\<lambda>round. ((p_id pl, int round),
                 (let st = parseGameLogStats gameLog (p_position pl = Goalie) round
                  in \<lparr>ps_goals = goals st, ps_assists = assists st, ps_wins = wins st,
                      ps_shutouts = shutouts st, ps_games_played = gamesPlayed st,
                      ps_updated_at = now\<rparr>)))
            [1, 2, 3])"

definition runWrites ::
  "feed \<Rightarrow> timestamp \<Rightarrow> player list \<Rightarrow> ((ident \<times> int) \<times> stat_row) list" where
  "runWrites getPlayerGameLog now ps = concat (map (playerWrites getPlayerGameLog now) ps)"

text \<open>
  The score of a selection as the specification words it: goals plus assists for a skater,
  twice the wins plus the shutouts for a goaltender, doubled for a star.
\<close>

definition score :: "position \<Rightarrow> stat_row \<Rightarrow> bool \<Rightarrow> int" where
  "score role ps isStar =
     (if role = Goalie then ps_wins ps * 2 + ps_shutouts ps else ps_goals ps + ps_assists ps)
       * (if isStar then 2 else 1)"

text \<open>The score of a joined row; a row without a selection or a snapshot scores nothing.\<close>

definition rowScore :: "joined_row \<Rightarrow> int" where
  "rowScore row =
     (case row of
        (r, Some rp, Some p, Some ps) \<Rightarrow> score (p_position p) ps (rp_is_star rp)
      | _ \<Rightarrow> 0)"

text \<open>The roles of the starred rows of a completeness query.\<close>

definition starredRoles :: "(position \<times> conference \<times> bool) list \<Rightarrow> position list" where
  "starredRoles rows = map fst (filter (\<lambda>(p, c, s). s) rows)"

text \<open>One upsert on a table keyed by its unique key.\<close>

definition putRow :: "('k \<rightharpoonup> 'v) \<Rightarrow> 'k \<times> 'v \<Rightarrow> ('k \<rightharpoonup> 'v)" where
  "putRow m kv = m(fst kv \<mapsto> snd kv)"

text \<open>
  A valid round that has a pick deadline which has not passed: the round parameter reads
  as a number from 1 to 3 and the round's row has a deadline not before \<open>now\<close>.
\<close>

definition openRound :: "database \<Rightarrow> timestamp \<Rightarrow> string \<Rightarrow> int \<Rightarrow> bool" where
  "openRound db now roundParam round =
     (parseInt roundParam = Some round \<and> 1 \<le> round \<and> round \<le> 3 \<and>
      (case lockResult db round of
         None \<Rightarrow> False
       | Some row \<Rightarrow> (case pick_deadline row of None \<Rightarrow> False | Some lockDate \<Rightarrow> now \<le> lockDate)))"

text \<open>Tiebreaker answers that the \<open>INT\<close> columns can hold.\<close>

definition answersFit :: "tiebreaker_answers option \<Rightarrow> bool" where
  "answersFit tb =
     (case tb of None \<Rightarrow> True | Some a \<Rightarrow> pgIntegerOrNull (q1 a) \<and> pgIntegerOrNull (q2 a))"

text \<open>
  A selection whose player is in the players table once and belongs to a team that is in
  the teams table once: it has exactly one row in the completeness query.
\<close>

definition joinsOnce :: "database \<Rightarrow> roster_player \<Rightarrow> bool" where
  "joinsOnce db rp = (length (selectionRows db rp) = 1)"

section \<open>Concrete inputs\<close>

text \<open>
  A goaltender's game as the feed reports it when it leaves the shutout count out: a win
  with no goal against.
\<close>

definition shutoutWin :: "string \<Rightarrow> game" where
  "shutoutWin gid =
     \<lparr>gameId = gid, decision = Some ''W'', game_shutouts = None, goalsAgainst = Some 0,
      game_goals = None, game_assists = None\<rparr>"

text \<open>
  A small database: two teams, three players with their round-1 snapshots, three users.
  Ann has submitted a round-1 roster, Bob has saved one without submitting it, Cy is not
  verified.
\<close>

definition skaterStats :: stat_row where
  "skaterStats = \<lparr>ps_goals = 2, ps_assists = 1, ps_wins = 0, ps_shutouts = 0,
                  ps_games_played = 3, ps_updated_at = 0\<rparr>"

definition goalieStats :: stat_row where
  "goalieStats = \<lparr>ps_goals = 0, ps_assists = 0, ps_wins = 1, ps_shutouts = 1,
                  ps_games_played = 1, ps_updated_at = 0\<rparr>"

definition ann :: user where
  "ann = \<lparr>u_id = 1, u_username = ''ann'', u_is_verified = True\<rparr>"

definition bob :: user where
  "bob = \<lparr>u_id = 2, u_username = ''bob'', u_is_verified = True\<rparr>"

definition cy :: user where
  "cy = \<lparr>u_id = 3, u_username = ''cy'', u_is_verified = False\<rparr>"

definition poolDb :: database where
  "poolDb =
     \<lparr>users = [bob, ann, cy],
      teams = [\<lparr>t_abbrev = ''EDM'', t_conference = Western\<rparr>,
               \<lparr>t_abbrev = ''FLA'', t_conference = Eastern\<rparr>],
      players =
        [\<lparr>p_id = 10, p_nhl_id = 8478402, p_team_abbrev = Some ''EDM'', p_position = Forward,
          p_cost = 5, p_is_active = True\<rparr>,
         \<lparr>p_id = 11, p_nhl_id = 8477934, p_team_abbrev = Some ''EDM'', p_position = Forward,
          p_cost = 5, p_is_active = True\<rparr>,
         \<lparr>p_id = 12, p_nhl_id = 8475683, p_team_abbrev = Some ''FLA'', p_position = Goalie,
          p_cost = 4, p_is_active = True\<rparr>],
      player_stats = [(10, 1) \<mapsto> skaterStats, (11, 1) \<mapsto> skaterStats, (12, 1) \<mapsto> goalieStats],
      rounds = [\<lparr>round_number = 1, pick_deadline = Some 100\<rparr>,
                \<lparr>round_number = 2, pick_deadline = None\<rparr>],
      team_qualifications =
        [\<lparr>tq_round_number = 1, tq_team_abbrev = ''EDM'', tq_qualified = True\<rparr>,
         \<lparr>tq_round_number = 1, tq_team_abbrev = ''FLA'', tq_qualified = True\<rparr>],
      rosters =
        [\<lparr>r_id = 1, r_user_id = 1, r_round = 1, r_is_submitted = True, r_submitted_at = Some 50\<rparr>,
         \<lparr>r_id = 2, r_user_id = 2, r_round = 1, r_is_submitted = False, r_submitted_at = None\<rparr>],
      roster_players =
        [\<lparr>rp_roster_id = 1, rp_player_id = 10, rp_is_star = False\<rparr>,
         \<lparr>rp_roster_id = 1, rp_player_id = 11, rp_is_star = True\<rparr>,
         \<lparr>rp_roster_id = 1, rp_player_id = 12, rp_is_star = True\<rparr>,
         \<lparr>rp_roster_id = 2, rp_player_id = 10, rp_is_star = True\<rparr>],
      tiebreakers = Map.empty,
      settings = [''stats_last_updated'' \<mapsto> JNull, ''stats_verified'' \<mapsto> JBool False],
      stat_update_log = []\<rparr>"

text \<open>
  An upstream feed: player 8478402 has one round-1 game with a goal and an assist, player
  8477934 has no playoff game yet (the 404 answer), every other request fails.
\<close>

definition pointFeed :: feed where
  "pointFeed nhlId =
     (if nhlId = 8478402
      then Some (GameLog [\<lparr>gameId = ''2025031111'', decision = None, game_shutouts = None,
                            goalsAgainst = None, game_goals = Some 1, game_assists = Some 1\<rparr>])
      else if nhlId = 8477934 then Some (GameLog [])
      else None)"

text \<open>
  A database for the roster operations: thirteen players of two qualified teams. The
  first twelve make a full roster (three forwards, two defensemen and a goaltender of each
  conference) that costs exactly 30; the thirteenth, a forward, costs 1.
\<close>

definition mkPlayer :: "ident \<Rightarrow> string \<Rightarrow> position \<Rightarrow> int \<Rightarrow> player" where
  "mkPlayer i team pos c =
     \<lparr>p_id = i, p_nhl_id = 8470000 + i, p_team_abbrev = Some team, p_position = pos,
      p_cost = c, p_is_active = True\<rparr>"

definition rosterDb :: database where
  "rosterDb =
     \<lparr>users = [ann, bob],
      teams = [\<lparr>t_abbrev = ''EDM'', t_conference = Western\<rparr>,
               \<lparr>t_abbrev = ''FLA'', t_conference = Eastern\<rparr>],
      players =
        [mkPlayer 1 ''EDM'' Forward 3, mkPlayer 2 ''EDM'' Forward 3, mkPlayer 3 ''EDM'' Forward 3,
         mkPlayer 4 ''EDM'' Defense 2, mkPlayer 5 ''EDM'' Defense 2, mkPlayer 6 ''EDM'' Goalie 2,
         mkPlayer 7 ''FLA'' Forward 3, mkPlayer 8 ''FLA'' Forward 3, mkPlayer 9 ''FLA'' Forward 3,
         mkPlayer 10 ''FLA'' Defense 2, mkPlayer 11 ''FLA'' Defense 2, mkPlayer 12 ''FLA'' Goalie 2,
         mkPlayer 13 ''EDM'' Forward 1],
      player_stats = Map.empty,
      rounds = [\<lparr>round_number = 1, pick_deadline = Some 100\<rparr>,
                \<lparr>round_number = 2, pick_deadline = None\<rparr>],
      team_qualifications =
        [\<lparr>tq_round_number = 1, tq_team_abbrev = ''EDM'', tq_qualified = True\<rparr>,
         \<lparr>tq_round_number = 1, tq_team_abbrev = ''FLA'', tq_qualified = True\<rparr>],
      rosters = [],
      roster_players = [],
      tiebreakers = Map.empty,
      settings = Map.empty,
      stat_update_log = []\<rparr>"

definition fullSelections :: selections where
  "fullSelections =
     \<lparr>western = Some \<lparr>forwards = Some [1, 2, 3], defense = Some [4, 5], goalies = Some [6]\<rparr>,
      eastern = Some \<lparr>forwards = Some [7, 8, 9], defense = Some [10, 11], goalies = Some [12]\<rparr>\<rparr>"

definition overCapSelections :: selections where
  "overCapSelections =
     \<lparr>western = Some \<lparr>forwards = Some [1, 2, 3, 13], defense = Some [4, 5], goalies = Some [6]\<rparr>,
      eastern = Some \<lparr>forwards = Some [7, 8, 9], defense = Some [10, 11], goalies = Some [12]\<rparr>\<rparr>"

definition emptySelections :: selections where
  "emptySelections =
     \<lparr>western = Some \<lparr>forwards = Some [], defense = Some [], goalies = Some []\<rparr>,
      eastern = None\<rparr>"

definition shortSelections :: selections where
  "shortSelections =
     \<lparr>western = Some \<lparr>forwards = Some [1, 2], defense = Some [4, 5], goalies = Some [6]\<rparr>,
      eastern = Some \<lparr>forwards = Some [7, 8, 9], defense = Some [10, 11], goalies = Some [12]\<rparr>\<rparr>"

text \<open>Star designations: one per role, and three forwards under the three role keys.\<close>

definition roleStars :: stars where
  "roleStars = \<lparr>star_forward = Some 1, star_defense = Some 4, star_goalie = Some 6\<rparr>"

definition forwardStars :: stars where
  "forwardStars = \<lparr>star_forward = Some 1, star_defense = Some 2, star_goalie = Some 3\<rparr>"

text \<open>
  States reached from \<open>rosterDb\<close> through the mounted handlers: Ann saves the full
  roster with one star per role and submits it; Bob saves the full roster with three
  starred forwards; Ann saves a roster that is one western forward short.
\<close>

definition savedDb :: database where
  "savedDb = snd (saveRoster rosterDb 10 1 ''1'' (Some fullSelections) (Some roleStars) None)"

definition submittedDb :: database where
  "submittedDb = snd (submitRoster savedDb 20 1 ''1'')"

definition forwardStarsDb :: database where
  "forwardStarsDb =
     snd (saveRoster rosterDb 10 2 ''1'' (Some fullSelections) (Some forwardStars) None)"

definition shortDb :: database where
  "shortDb = snd (saveRoster rosterDb 10 1 ''1'' (Some shortSelections) (Some roleStars) None)"

text \<open>
  A fourteenth player, who has no team, joins the players. Ann saves, through the handler
  of the second version, a roster of thirteen selections: the twelve of a complete
  roster and the player without a team.
\<close>

definition teamlessPlayers :: database where
  "teamlessPlayers =
     rosterDb\<lparr>players := players rosterDb @
                 [\<lparr>p_id = 14, p_nhl_id = 8470014, p_team_abbrev = None, p_position = Forward,
                   p_cost = 1, p_is_active = True\<rparr>]\<rparr>"

definition teamlessSelections :: selections where
  "teamlessSelections =
     \<lparr>western = Some \<lparr>forwards = Some [1, 2, 13, 14], defense = Some [4, 5], goalies = Some [6]\<rparr>,
      eastern = Some \<lparr>forwards = Some [7, 8, 9], defense = Some [10, 11], goalies = Some [12]\<rparr>\<rparr>"

definition teamlessDb :: database where
  "teamlessDb =
     snd (saveRoster_part006 teamlessPlayers 10 1 ''1'' (Some teamlessSelections)
            (Some roleStars) None)"

section \<open>Properties of the round classifier\<close>

lemma slice_round_code:
  assumes "4 \<le> length s"
  shows "slice s (-4) (-2) = [s ! (length s - 4), s ! (length s - 3)]"
proof -
  let ?n = "length s"
  have idx: "sliceIndex ?n (-4) = ?n - 4" "sliceIndex ?n (-2) = ?n - 2"
    using assms by (simp_all add: sliceIndex_def max_def nat_diff_distrib')
  have two: "(?n - 2) - (?n - 4) = 2" using assms by simp
  have "slice s (-4) (-2) = take 2 (drop (?n - 4) s)"
    unfolding slice_def Let_def idx two ..
  also have "\<dots> = [s ! (?n - 4), s ! (?n - 3)]"
  proof -
    have first: "drop (?n - 4) s = s ! (?n - 4) # drop (Suc (?n - 4)) s"
      using assms by (intro Cons_nth_drop_Suc [symmetric]) simp
    have "Suc (?n - 4) = ?n - 3" using assms by simp
    moreover have "drop (?n - 3) s = s ! (?n - 3) # drop (Suc (?n - 3)) s"
      using assms by (intro Cons_nth_drop_Suc [symmetric]) simp
    ultimately have "drop (Suc (?n - 4)) s = s ! (?n - 3) # drop (Suc (?n - 3)) s"
      by simp
    with first show ?thesis by (simp add: numeral_2_eq_2)
  qed
  finally show ?thesis .
qed

lemma isRadixDigit_decimal: "isRadixDigit 10 c = isDecimalDigit c"
  by (auto simp: isRadixDigit_def digitOf_def isDecimalDigit_def Let_def
      split: option.splits if_splits)

lemma digitOf_decimal: "isDecimalDigit c \<Longrightarrow> digitOf c = Some (of_char c - 48)"
  by (simp add: digitOf_def isDecimalDigit_def Let_def)

lemma decimal_not_space: "isDecimalDigit c \<Longrightarrow> \<not> isWhiteSpace c"
  by (auto simp: isDecimalDigit_def isWhiteSpace_def)

lemma decimal_not_special:
  "isDecimalDigit c \<Longrightarrow>
     c \<noteq> CHR ''-'' \<and> c \<noteq> CHR ''+'' \<and> c \<noteq> CHR ''x'' \<and> c \<noteq> CHR ''X''"
  by (auto simp: isDecimalDigit_def)

lemma decimal_value_bound: "isDecimalDigit c \<Longrightarrow> (of_char c :: nat) - 48 < 10"
  by (auto simp: isDecimalDigit_def)

lemma parseInt_one:
  "parseInt [b] = (if isDecimalDigit b then Some (int (of_char b - 48)) else None)"
  by (auto simp: parseInt_def stripSign_def stripPrefix_def isRadixDigit_decimal
      digitsValue_def digitOf_decimal decimal_not_space dest: decimal_not_special)

lemma parseInt_two_digits:
  assumes "isDecimalDigit a" "isDecimalDigit b"
  shows "parseInt [a, b] = Some (int (10 * (of_char a - 48) + (of_char b - 48)))"
  using assms decimal_not_special [of a] decimal_not_special [of b]
  by (simp add: parseInt_def stripSign_def stripPrefix_def isRadixDigit_decimal
      digitsValue_def digitOf_decimal decimal_not_space)

lemma parseInt_skip_space: "isWhiteSpace a \<Longrightarrow> parseInt (a # s) = parseInt s"
  by (simp add: parseInt_def)

lemma parseInt_two_other:
  assumes "\<not> (isDecimalDigit a \<and> isDecimalDigit b)" "parseInt [a, b] = Some v"
  shows "v < 10"
proof (cases "isWhiteSpace a")
  case True
  with assms(2) have "parseInt [b] = Some v" by (simp add: parseInt_skip_space)
  then show ?thesis
    using decimal_value_bound [of b] by (auto simp: parseInt_one split: if_splits)
next
  case nsp: False
  show ?thesis
  proof (cases "a = CHR ''-'' \<or> a = CHR ''+''")
    case True
    with nsp assms(2) show ?thesis
      using decimal_value_bound [of b]
      by (auto simp: parseInt_def stripSign_def stripPrefix_def isRadixDigit_decimal
          digitsValue_def digitOf_decimal split: if_splits)
  next
    case nsign: False
    show ?thesis
    proof (cases "isDecimalDigit a")
      case True
      with assms(1) have "\<not> isDecimalDigit b" by simp
      with True nsp nsign assms(2) show ?thesis
        using decimal_value_bound [of a]
        by (auto simp: parseInt_def stripSign_def stripPrefix_def isRadixDigit_decimal
            digitsValue_def digitOf_decimal split: if_splits)
    next
      case False
      with nsp nsign assms(2) show ?thesis
        by (auto simp: parseInt_def stripSign_def stripPrefix_def isRadixDigit_decimal
            split: if_splits)
    qed
  qed
qed

lemma determineRound_by_code:
  "determineRound s =
     (case embeddedCode s of
        None \<Rightarrow> 1
      | Some code \<Rightarrow>
          if 11 \<le> code \<and> code \<le> 17 then 1
          else if 21 \<le> code \<and> code \<le> 27 then 2
          else if 31 \<le> code \<and> code \<le> 47 then 3
          else 1)"
proof (cases "length s < 4")
  case True
  then show ?thesis by (simp add: determineRound_def embeddedCode_def)
next
  case False
  then have len: "4 \<le> length s" by simp
  let ?a = "s ! (length s - 4)" and ?b = "s ! (length s - 3)"
  show ?thesis
  proof (cases "isDecimalDigit ?a \<and> isDecimalDigit ?b")
    case True
    then show ?thesis
      using False
      by (simp add: determineRound_def embeddedCode_def slice_round_code [OF len]
          parseInt_two_digits Let_def)
  next
    case nd: False
    have "embeddedCode s = None" using nd False by (auto simp: embeddedCode_def Let_def)
    moreover have "determineRound s = 1"
    proof (cases "parseInt [?a, ?b]")
      case None
      then show ?thesis using False by (simp add: determineRound_def slice_round_code [OF len])
    next
      case (Some v)
      with nd have "v < 10" using parseInt_two_other by blast
      with Some show ?thesis
        using False by (simp add: determineRound_def slice_round_code [OF len])
    qed
    ultimately show ?thesis by simp
  qed
qed

text \<open>
  Claim C3. The classifier is a total function of the identifier: when the two characters
  before the trailing two are decimal digits forming a code in 11--17, 21--27 or 31--47 it
  returns 1, 2 or 3; for every other identifier (a code outside these ranges, characters
  that are not digits, fewer than four characters) it returns 1.
\<close>

theorem determineRound_classification:
  "determineRound s =
     (case embeddedCode s of
        None \<Rightarrow> 1
      | Some code \<Rightarrow>
          if 11 \<le> code \<and> code \<le> 17 then 1
          else if 21 \<le> code \<and> code \<le> 27 then 2
          else if 31 \<le> code \<and> code \<le> 47 then 3
          else 1)"
  by (rule determineRound_by_code)

theorem determineRound_classification_witness:
  "determineRound ''2025031711'' = 1 \<and> determineRound ''2025032111'' = 2 \<and>
   determineRound ''2025034711'' = 3 \<and> determineRound ''2025034811'' = 1 \<and>
   determineRound ''2025031 11'' = 1 \<and> determineRound ''311'' = 1"
  using determineRound_classification [of "''2025031711''"]
    determineRound_classification [of "''2025032111''"]
    determineRound_classification [of "''2025034711''"]
    determineRound_classification [of "''2025034811''"]
    determineRound_classification [of "''2025031 11''"]
    determineRound_classification [of "''311''"]
  by (simp add: embeddedCode_def isDecimalDigit_def)

section \<open>Properties of the stat aggregator\<close>

text \<open>
  Claim C2, evaluated on the code. A goaltender's single win with no goal against and no
  shutout field is credited one shutout. A second such win in the same round adds
  nothing: the code raises the round's running total to at least 1 instead of crediting
  the game, so two qualifying games leave the round's shutouts at 1.
\<close>

theorem shutout_credit_capped_per_round:
  "shutouts (parseGameLogStats (GameLog [shutoutWin ''2025031111'']) True 1) = 1 \<and>
   shutouts (parseGameLogStats
     (GameLog [shutoutWin ''2025031111'', shutoutWin ''2025031112'']) True 1) = 1"
  by (simp add: parseGameLogStats_def gameStep_def goalieUpdate_def zeroStats_def
      shutoutWin_def determineRound_by_code embeddedCode_def isDecimalDigit_def)

section \<open>Properties of the leaderboard view\<close>

lemma selectionPoints_score: "selectionPoints pos isStar ps = score pos ps isStar"
  by (cases pos) (simp_all add: selectionPoints_def score_def)

lemma rowPoints_rowScore:
  "(case rowPoints row of None \<Rightarrow> 0 | Some n \<Rightarrow> n) = rowScore row"
proof -
  obtain r rp p ps where row: "row = (r, rp, p, ps)" by (cases row)
  show ?thesis
    by (cases rp; cases p; cases ps)
      (simp_all add: row rowPoints_def rowScore_def selectionPoints_score)
qed

lemma total_points_rowScore:
  "total_points (leaderboardRow db u) = sum_list (map rowScore (joinedRows db u))"
  by (simp add: leaderboardRow_def coalesceSum_def comp_def rowPoints_rowScore Let_def)

lemma aggregate_total_rowScore:
  "total_points (aggregateRow k rows) = sum_list (map rowScore rows)"
  by (simp add: aggregateRow_def coalesceSum_def comp_def rowPoints_rowScore)

text \<open>
  Claim C6. A selection whose player has a snapshot for the roster's round scores
  (goals + assists) for a forward or a defenseman and (wins * 2 + shutouts) for a
  goaltender, doubled when the selection is starred; a user's total, and the total of
  every output row of the view, is the sum of these scores over the joined rows.
\<close>

theorem scoring_formula:
  "rowPoints (r, Some rp, Some p, Some ps) =
     Some ((if p_position p = Goalie then ps_wins ps * 2 + ps_shutouts ps
            else ps_goals ps + ps_assists ps) * (if rp_is_star rp then 2 else 1)) \<and>
   total_points (leaderboardRow db u) = sum_list (map rowScore (joinedRows db u)) \<and>
   total_points (aggregateRow k rows) = sum_list (map rowScore rows)"
proof -
  have "rowPoints (r, Some rp, Some p, Some ps) = Some (score (p_position p) ps (rp_is_star rp))"
    by (simp add: rowPoints_def selectionPoints_score)
  then show ?thesis
    using total_points_rowScore [of db u] aggregate_total_rowScore [of k rows]
    by (simp add: score_def)
qed

theorem scoring_formula_witness:
  "rowPoints (None, Some \<lparr>rp_roster_id = 1, rp_player_id = 10, rp_is_star = False\<rparr>,
      Some \<lparr>p_id = 10, p_nhl_id = 8478402, p_team_abbrev = Some ''EDM'', p_position = Forward,
            p_cost = 5, p_is_active = True\<rparr>, Some skaterStats) = Some 3 \<and>
   rowPoints (None, Some \<lparr>rp_roster_id = 1, rp_player_id = 10, rp_is_star = True\<rparr>,
      Some \<lparr>p_id = 10, p_nhl_id = 8478402, p_team_abbrev = Some ''EDM'', p_position = Forward,
            p_cost = 5, p_is_active = True\<rparr>, Some skaterStats) = Some 6 \<and>
   rowPoints (None, Some \<lparr>rp_roster_id = 1, rp_player_id = 12, rp_is_star = True\<rparr>,
      Some \<lparr>p_id = 12, p_nhl_id = 8475683, p_team_abbrev = Some ''FLA'', p_position = Goalie,
            p_cost = 4, p_is_active = True\<rparr>, Some goalieStats) = Some 6 \<and>
   total_points (leaderboardRow poolDb ann) = 15"
proof -
  have "total_points (leaderboardRow poolDb ann) = 15"
    by (simp add: leaderboardRow_def joinedRows_def leftJoin_def rowPoints_def
        selectionPoints_def coalesceSum_def poolDb_def ann_def skaterStats_def
        goalieStats_def)
  then show ?thesis
    using scoring_formula [of None "\<lparr>rp_roster_id = 1, rp_player_id = 10, rp_is_star = False\<rparr>"
        "\<lparr>p_id = 10, p_nhl_id = 8478402, p_team_abbrev = Some ''EDM'', p_position = Forward,
          p_cost = 5, p_is_active = True\<rparr>" skaterStats poolDb ann]
      scoring_formula [of None "\<lparr>rp_roster_id = 1, rp_player_id = 10, rp_is_star = True\<rparr>"
        "\<lparr>p_id = 10, p_nhl_id = 8478402, p_team_abbrev = Some ''EDM'', p_position = Forward,
          p_cost = 5, p_is_active = True\<rparr>" skaterStats poolDb ann]
      scoring_formula [of None "\<lparr>rp_roster_id = 1, rp_player_id = 12, rp_is_star = True\<rparr>"
        "\<lparr>p_id = 12, p_nhl_id = 8475683, p_team_abbrev = Some ''FLA'', p_position = Goalie,
          p_cost = 4, p_is_active = True\<rparr>" goalieStats poolDb ann]
    by (simp add: skaterStats_def goalieStats_def)
qed

lemma joinedRows_no_submitted:
  assumes "\<forall>r \<in> set (rosters db). r_user_id r = u_id u \<longrightarrow> \<not> r_is_submitted r"
  shows "joinedRows db u = [(None, None, None, None)]"
proof -
  have "filter (\<lambda>r. r_user_id r = u_id u \<and> r_is_submitted r) (rosters db) = []"
    using assms by (auto simp: filter_empty_conv)
  then show ?thesis by (simp add: joinedRows_def leftJoin_def)
qed

lemma joinedRows_submitted_only:
  "joinedRows (db\<lparr>rosters := filter r_is_submitted (rosters db)\<rparr>) u = joinedRows db u"
proof -
  have "filter (\<lambda>r. r_user_id r = u_id u \<and> r_is_submitted r) (filter r_is_submitted (rosters db))
        = filter (\<lambda>r. r_user_id r = u_id u \<and> r_is_submitted r) (rosters db)"
    by (induction "rosters db") (auto intro: filter_cong)
  then show ?thesis by (simp add: joinedRows_def cong: option.case_cong)
qed

lemma concat_map_nonempty:
  assumes "xs \<noteq> []" "\<And>x. x \<in> set xs \<Longrightarrow> f x \<noteq> []"
  shows "concat (map f xs) \<noteq> []"
  using assms by (cases xs) auto

lemma leftJoin_nonempty: "leftJoin matches \<noteq> []"
  by (simp add: leftJoin_def)

lemma joinedRows_nonempty: "joinedRows db u \<noteq> []"
  unfolding joinedRows_def
  by (intro concat_map_nonempty leftJoin_nonempty) (simp add: leftJoin_nonempty)

lemma filter_tagged:
  "map snd (filter (\<lambda>(u, row). P u) (concat (map (\<lambda>u. map (\<lambda>row. (u, row)) (J u)) us)))
     = concat (map J (filter P us))"
  by (induction us) (simp_all add: filter_map comp_def)

lemma filter_tagged_rows:
  "filter (\<lambda>(u, row). P u) (concat (map (\<lambda>u. map (\<lambda>row. (u, row)) (J u)) us))
     = concat (map (\<lambda>u. map (\<lambda>row. (u, row)) (J u)) (filter P us))"
  by (induction us) (simp_all add: filter_map comp_def)

lemma whereRows_users:
  "whereRows db =
     concat (map (\<lambda>u. map (\<lambda>row. (u, row)) (joinedRows db u)) (filter u_is_verified (users db)))"
  unfolding whereRows_def fromRows_def by (rule filter_tagged_rows)

lemma set_whereRows:
  "set (whereRows db) =
     {(u, row). u \<in> set (users db) \<and> u_is_verified u \<and> row \<in> set (joinedRows db u)}"
  by (auto simp: whereRows_users)

lemma set_groupKeys:
  "set (groupKeys db) = groupKey ` {u \<in> set (users db). u_is_verified u}"
proof
  show "set (groupKeys db) \<subseteq> groupKey ` {u \<in> set (users db). u_is_verified u}"
    by (auto simp: groupKeys_def set_whereRows)
next
  show "groupKey ` {u \<in> set (users db). u_is_verified u} \<subseteq> set (groupKeys db)"
  proof
    fix k assume "k \<in> groupKey ` {u \<in> set (users db). u_is_verified u}"
    then obtain u where u: "u \<in> set (users db)" "u_is_verified u" "k = groupKey u" by auto
    obtain row where "row \<in> set (joinedRows db u)"
      using joinedRows_nonempty [of db u] by (cases "joinedRows db u") auto
    with u have "(u, row) \<in> set (whereRows db)" by (simp add: set_whereRows)
    then have "(case (u, row) of (u, row) \<Rightarrow> groupKey u) \<in> set (groupKeys db)"
      unfolding groupKeys_def set_remdups set_map by (rule imageI)
    with u show "k \<in> set (groupKeys db)" by simp
  qed
qed

lemma groupRows_users:
  "groupRows db k =
     concat (map (joinedRows db) (filter (\<lambda>u. u_is_verified u \<and> groupKey u = k) (users db)))"
  unfolding groupRows_def whereRows_users by (simp add: filter_tagged)

lemma groupRows_no_submitted:
  assumes "\<forall>r \<in> set (rosters db). r_user_id r = fst k \<longrightarrow> \<not> r_is_submitted r"
  shows "coalesceSum (map rowPoints (groupRows db k)) = 0"
proof -
  have "\<And>us. coalesceSum (map rowPoints (concat (map (joinedRows db) (filter (\<lambda>u. u_is_verified u \<and> groupKey u = k) us)))) = 0"
  proof -
    fix us show "coalesceSum (map rowPoints (concat (map (joinedRows db) (filter (\<lambda>u. u_is_verified u \<and> groupKey u = k) us)))) = 0"
    proof (induction us)
      case Nil
      then show ?case by (simp add: coalesceSum_def)
    next
      case (Cons u us)
      show ?case
      proof (cases "u_is_verified u \<and> groupKey u = k")
        case True
        then have "\<forall>r \<in> set (rosters db). r_user_id r = u_id u \<longrightarrow> \<not> r_is_submitted r"
          using assms by (auto simp: groupKey_def)
        then have "joinedRows db u = [(None, None, None, None)]"
          by (rule joinedRows_no_submitted)
        with True Cons.IH show ?thesis by (simp add: coalesceSum_def rowPoints_def)
      next
        case False
        with Cons.IH show ?thesis by auto
      qed
    qed
  qed
  then show ?thesis by (simp add: groupRows_users)
qed

lemma groupRows_single:
  assumes "distinct (map u_id us)" "u \<in> set us" "P u"
  shows "filter (\<lambda>v. P v \<and> groupKey v = groupKey u) us = [u]"
  using assms
proof (induction us)
  case Nil
  then show ?case by simp
next
  case (Cons a us)
  show ?case
  proof (cases "a = u")
    case True
    have fresh: "u_id u \<notin> set (map u_id us)" using Cons.prems(1) True by simp
    have "\<And>v. v \<in> set us \<Longrightarrow> groupKey v \<noteq> groupKey u"
    proof
      fix v assume v: "v \<in> set us" and same: "groupKey v = groupKey u"
      from v have "u_id v \<in> u_id ` set us" by (rule imageI)
      moreover from same have "u_id v = u_id u" by (simp add: groupKey_def)
      ultimately have "u_id u \<in> u_id ` set us" by metis
      with fresh show False by simp
    qed
    then have "filter (\<lambda>v. P v \<and> groupKey v = groupKey u) us = []"
      by (auto simp: filter_empty_conv)
    with True Cons.prems(3) show ?thesis by simp
  next
    case False
    with Cons.prems have u: "u \<in> set us" and d: "distinct (map u_id us)" by auto
    have "u_id a \<notin> set (map u_id us)" using Cons.prems(1) by simp
    moreover have "u_id u \<in> set (map u_id us)" using u by simp
    ultimately have "groupKey a \<noteq> groupKey u" by (auto simp: groupKey_def)
    moreover have "filter (\<lambda>v. P v \<and> groupKey v = groupKey u) us = [u]"
      using d u Cons.prems(3) by (rule Cons.IH)
    ultimately show ?thesis by simp
  qed
qed

lemma keys_of_groups:
  "map (\<lambda>row. (user_id row, username row)) (leaderboardGroups db) = groupKeys db"
  by (simp add: leaderboardGroups_def aggregateRow_def comp_def)

lemma group_of_user:
  assumes "u \<in> set (users db)" "u_is_verified u"
  shows "aggregateRow (groupKey u) (groupRows db (groupKey u)) \<in> set (leaderboardGroups db)"
proof -
  have "groupKey u \<in> set (groupKeys db)" using assms by (auto simp: set_groupKeys)
  then show ?thesis by (simp add: leaderboardGroups_def)
qed

lemma leaderboardRow_of_group:
  assumes "distinct (map u_id (users db))" "u \<in> set (users db)" "u_is_verified u"
  shows "aggregateRow (groupKey u) (groupRows db (groupKey u)) = leaderboardRow db u"
proof -
  have "filter (\<lambda>v. u_is_verified v \<and> groupKey v = groupKey u) (users db) = [u]"
    using assms by (rule groupRows_single)
  then show ?thesis
    by (simp add: groupRows_users aggregateRow_def leaderboardRow_def groupKey_def Let_def)
qed

lemma leaderboardGroups_submitted_only:
  "leaderboardGroups (db\<lparr>rosters := filter r_is_submitted (rosters db)\<rparr>) = leaderboardGroups db"
proof -
  have "whereRows (db\<lparr>rosters := filter r_is_submitted (rosters db)\<rparr>) = whereRows db"
    by (simp add: whereRows_users joinedRows_submitted_only)
  then show ?thesis
    by (simp add: leaderboardGroups_def groupKeys_def groupRows_def)
qed

lemma leaderboard_exists:
  "leaderboard db (sort_key (\<lambda>row. - total_points row) (leaderboardGroups db))"
proof -
  have "sorted (map (\<lambda>row. - total_points row)
          (sort_key (\<lambda>row. - total_points row) (leaderboardGroups db)))"
    by (rule sorted_sort_key)
  then show ?thesis by (simp add: leaderboard_def sorted_map)
qed

text \<open>
  Claim C7. The view has a result, and in every result: each verified user has a row,
  which carries total points 0 when none of the user's rosters is submitted; each row
  belongs to a verified user and no two rows have the same user id and name; where user
  ids are unique, the row of a verified user is the one computed from the user's own
  joined rows; and the rows are in descending order of total points. Rosters that are
  not submitted contribute nothing: removing them leaves the output rows as they are.
\<close>

theorem leaderboard_membership_order:
  "(\<exists>out. leaderboard db out) \<and>
   (\<forall>out. leaderboard db out \<longrightarrow>
      (\<forall>u \<in> set (users db). u_is_verified u \<longrightarrow>
         (\<exists>row \<in> set out. user_id row = u_id u \<and> username row = u_username u)) \<and>
      (\<forall>u \<in> set (users db). u_is_verified u \<and>
         (\<forall>r \<in> set (rosters db). r_user_id r = u_id u \<longrightarrow> \<not> r_is_submitted r) \<longrightarrow>
         (\<exists>row \<in> set out. user_id row = u_id u \<and> username row = u_username u \<and>
            total_points row = 0)) \<and>
      (\<forall>row \<in> set out. \<exists>u \<in> set (users db).
         u_is_verified u \<and> user_id row = u_id u \<and> username row = u_username u) \<and>
      distinct (map (\<lambda>row. (user_id row, username row)) out) \<and>
      (distinct (map u_id (users db)) \<longrightarrow>
         (\<forall>u \<in> set (users db). u_is_verified u \<longrightarrow> leaderboardRow db u \<in> set out)) \<and>
      sorted_wrt (\<lambda>a b. total_points a \<ge> total_points b) out) \<and>
   leaderboardGroups (db\<lparr>rosters := filter r_is_submitted (rosters db)\<rparr>) = leaderboardGroups db"
proof (intro conjI allI impI)
  show "\<exists>out. leaderboard db out" using leaderboard_exists by blast
next
  show "leaderboardGroups (db\<lparr>rosters := filter r_is_submitted (rosters db)\<rparr>) = leaderboardGroups db"
    by (rule leaderboardGroups_submitted_only)
next
  fix out assume out: "leaderboard db out"
  then have mset: "mset out = mset (leaderboardGroups db)"
    and sorted: "sorted_wrt (\<lambda>a b. total_points a \<ge> total_points b) out"
    by (simp_all add: leaderboard_def)
  from mset have set: "set out = set (leaderboardGroups db)" by (rule mset_eq_setD)
  show "sorted_wrt (\<lambda>a b. total_points a \<ge> total_points b) out" by (rule sorted)
  show "\<forall>u \<in> set (users db). u_is_verified u \<longrightarrow>
         (\<exists>row \<in> set out. user_id row = u_id u \<and> username row = u_username u)"
  proof (intro ballI impI)
    fix u assume "u \<in> set (users db)" "u_is_verified u"
    then have "aggregateRow (groupKey u) (groupRows db (groupKey u)) \<in> set out"
      using group_of_user set by simp
    then show "\<exists>row \<in> set out. user_id row = u_id u \<and> username row = u_username u"
      by (rule bexI [rotated]) (simp add: aggregateRow_def groupKey_def)
  qed
  show "\<forall>u \<in> set (users db). u_is_verified u \<and>
         (\<forall>r \<in> set (rosters db). r_user_id r = u_id u \<longrightarrow> \<not> r_is_submitted r) \<longrightarrow>
         (\<exists>row \<in> set out. user_id row = u_id u \<and> username row = u_username u \<and>
            total_points row = 0)"
  proof (intro ballI impI)
    fix u assume u: "u \<in> set (users db)"
      and h: "u_is_verified u \<and>
         (\<forall>r \<in> set (rosters db). r_user_id r = u_id u \<longrightarrow> \<not> r_is_submitted r)"
    then have "aggregateRow (groupKey u) (groupRows db (groupKey u)) \<in> set out"
      using group_of_user set by simp
    moreover have "coalesceSum (map rowPoints (groupRows db (groupKey u))) = 0"
      using h by (intro groupRows_no_submitted) (simp add: groupKey_def)
    ultimately show "\<exists>row \<in> set out. user_id row = u_id u \<and> username row = u_username u \<and>
            total_points row = 0"
      by (intro bexI [of _ "aggregateRow (groupKey u) (groupRows db (groupKey u))"])
        (simp_all add: aggregateRow_def groupKey_def)
  qed
  show "\<forall>row \<in> set out. \<exists>u \<in> set (users db).
         u_is_verified u \<and> user_id row = u_id u \<and> username row = u_username u"
  proof
    fix row assume "row \<in> set out"
    then obtain k where k: "k \<in> set (groupKeys db)" "row = aggregateRow k (groupRows db k)"
      using set by (auto simp: leaderboardGroups_def)
    then obtain u where "u \<in> set (users db)" "u_is_verified u" "k = groupKey u"
      by (auto simp: set_groupKeys)
    with k show "\<exists>u \<in> set (users db).
         u_is_verified u \<and> user_id row = u_id u \<and> username row = u_username u"
      by (auto simp: aggregateRow_def groupKey_def)
  qed
  show "distinct (map (\<lambda>row. (user_id row, username row)) out)"
  proof -
    have "mset (map (\<lambda>row. (user_id row, username row)) out) = mset (groupKeys db)"
      using mset keys_of_groups [of db] by (metis mset_map)
    moreover have "distinct (groupKeys db)" by (simp add: groupKeys_def)
    ultimately show ?thesis by (metis mset_eq_imp_distinct_iff)
  qed
  show "\<forall>u \<in> set (users db). u_is_verified u \<longrightarrow> leaderboardRow db u \<in> set out"
    if "distinct (map u_id (users db))"
    using that group_of_user [of _ db] leaderboardRow_of_group [of db] set by auto
qed

lemma poolDb_groups:
  "leaderboardGroups poolDb =
     [\<lparr>user_id = 2, username = ''bob'', total_points = 0, r1_points = 0, r2_points = 0,
       r3_points = 0\<rparr>,
      \<lparr>user_id = 1, username = ''ann'', total_points = 15, r1_points = 15, r2_points = 0,
       r3_points = 0\<rparr>]"
  by (simp add: leaderboardGroups_def groupKeys_def groupRows_def whereRows_def fromRows_def
      groupKey_def aggregateRow_def joinedRows_def leftJoin_def rowPoints_def rowRoundPoints_def
      selectionPoints_def coalesceSum_def poolDb_def ann_def bob_def cy_def skaterStats_def
      goalieStats_def)

theorem leaderboard_membership_order_witness:
  "leaderboard poolDb
     [\<lparr>user_id = 1, username = ''ann'', total_points = 15, r1_points = 15, r2_points = 0,
       r3_points = 0\<rparr>,
      \<lparr>user_id = 2, username = ''bob'', total_points = 0, r1_points = 0, r2_points = 0,
       r3_points = 0\<rparr>] \<and>
   leaderboardRow poolDb bob =
     \<lparr>user_id = 2, username = ''bob'', total_points = 0, r1_points = 0, r2_points = 0,
      r3_points = 0\<rparr> \<and>
   leaderboardRow poolDb bob \<in> set
     [\<lparr>user_id = 1, username = ''ann'', total_points = 15, r1_points = 15, r2_points = 0,
       r3_points = 0\<rparr>,
      \<lparr>user_id = 2, username = ''bob'', total_points = 0, r1_points = 0, r2_points = 0,
       r3_points = 0\<rparr>]"
proof -
  let ?out = "[\<lparr>user_id = 1, username = ''ann'', total_points = 15, r1_points = 15,
                 r2_points = 0, r3_points = 0\<rparr>,
               \<lparr>user_id = 2, username = ''bob'', total_points = 0, r1_points = 0,
                 r2_points = 0, r3_points = 0\<rparr>]"
  have out: "leaderboard poolDb ?out"
    by (simp add: leaderboard_def poolDb_groups)
  have users: "distinct (map u_id (users poolDb))" "bob \<in> set (users poolDb)" "u_is_verified bob"
    by (simp_all add: poolDb_def ann_def bob_def cy_def)
  have "leaderboardRow poolDb bob \<in> set ?out"
    using leaderboard_membership_order [of poolDb] out users by blast
  moreover have "leaderboardRow poolDb bob =
     \<lparr>user_id = 2, username = ''bob'', total_points = 0, r1_points = 0, r2_points = 0,
      r3_points = 0\<rparr>"
    by (simp add: leaderboardRow_def joinedRows_def leftJoin_def rowPoints_def
        rowRoundPoints_def coalesceSum_def poolDb_def bob_def)
  ultimately show ?thesis using out by simp
qed

section \<open>Properties of the sync orchestrator\<close>

lemma foldl_putRow:
  "foldl putRow m kvs = m ++ map_of (rev kvs)"
proof (induction kvs arbitrary: m)
  case Nil
  then show ?case by simp
next
  case (Cons kv kvs)
  have "putRow m kv ++ map_of (rev kvs) = m ++ (map_of [kv] ++ map_of (rev kvs))"
    by (rule ext) (simp add: putRow_def map_add_def split: option.splits)
  then show ?case using Cons.IH [of "putRow m kv"] by simp
qed

lemma updatePlayer_writes:
  "fst (updatePlayer feed now (tbl, n) pl) = foldl putRow tbl (playerWrites feed now pl)"
  by (simp add: updatePlayer_def playerWrites_def upsertPlayerStats_def putRow_def Let_def
      split: option.splits)

lemma foldl_updatePlayer:
  "fst (foldl (updatePlayer feed now) (tbl, n) ps) = foldl putRow tbl (runWrites feed now ps)"
proof (induction ps arbitrary: tbl n)
  case Nil
  then show ?case by (simp add: runWrites_def)
next
  case (Cons pl ps)
  obtain tbl' n' where step: "updatePlayer feed now (tbl, n) pl = (tbl', n')"
    by (cases "updatePlayer feed now (tbl, n) pl")
  have "tbl' = foldl putRow tbl (playerWrites feed now pl)"
    using updatePlayer_writes [of feed now tbl n pl] step by simp
  then show ?case using Cons.IH [of tbl' n'] step by (simp add: runWrites_def)
qed

lemma player_stats_after_run:
  "player_stats (snd (updateAllPlayerStats feed now db)) =
     player_stats db ++ map_of (rev (runWrites feed now (filter p_is_active (players db))))"
proof -
  obtain tbl n where run:
    "foldl (updatePlayer feed now) (player_stats db, 0) (filter p_is_active (players db)) = (tbl, n)"
    by (cases "foldl (updatePlayer feed now) (player_stats db, 0) (filter p_is_active (players db))")
  have "tbl = player_stats db ++ map_of (rev (runWrites feed now (filter p_is_active (players db))))"
    using foldl_updatePlayer [of feed now "player_stats db" 0 "filter p_is_active (players db)"] run
    by (simp add: foldl_putRow)
  then show ?thesis
    by (simp add: updateAllPlayerStats_def startUpdateLog_def Let_def run)
qed

lemma players_after_run [simp]:
  "players (snd (updateAllPlayerStats feed now db)) = players db"
  by (simp add: updateAllPlayerStats_def startUpdateLog_def Let_def split: prod.splits)

lemma runWrites_restamp:
  "runWrites feed t2 ps = map (\<lambda>(k, v). (k, v\<lparr>ps_updated_at := t2\<rparr>)) (runWrites feed t1 ps)"
  by (induction ps) (simp_all add: runWrites_def playerWrites_def Let_def split: option.splits)

lemma map_of_restamp:
  "map_of (rev (map (\<lambda>(k, v). (k, f v)) kvs)) = map_option f \<circ> map_of (rev kvs)"
proof -
  have "rev (map (\<lambda>(k, v). (k, f v)) kvs) = map (\<lambda>(k, v). (k, f v)) (rev kvs)"
    by (simp add: rev_map)
  then show ?thesis by (simp add: map_of_map)
qed

lemma rerun_table:
  fixes t0 :: "ident \<times> int \<rightharpoonup> stat_row"
  assumes "m2 = map_option f \<circ> m1"
  shows "(t0 ++ m1) ++ m2 = t0 ++ m2"
  using assms by (intro ext) (simp add: map_add_def split: option.splits)

lemma rerun_values:
  fixes t0 :: "ident \<times> int \<rightharpoonup> stat_row"
  assumes "m2 = map_option (\<lambda>v. v\<lparr>ps_updated_at := t\<rparr>) \<circ> m1"
  shows "map_option snapshotValues (((t0 ++ m1) ++ m2) k) = map_option snapshotValues ((t0 ++ m1) k)"
  using assms by (simp add: map_add_def snapshotValues_def split: option.splits)

lemma settings_after_run:
  "settings (snd (updateAllPlayerStats feed now db)) =
     updateSetting ''stats_verified'' (JBool True)
       (updateSetting ''stats_last_updated'' (JTimestamp now) (settings db))"
  by (simp add: updateAllPlayerStats_def startUpdateLog_def Let_def split: prod.splits)

text \<open>
  Claim C8, as the code has it. With the same upstream feed, a second run of the sync
  leaves the goals, assists, wins, shutouts and games played of every snapshot as the
  first run wrote them, and creates or removes no snapshot: each upsert replaces the row
  with the recomputed totals. The table after the second run is the table a single run at
  the second run's time gives, so only the last-updated timestamps move.
\<close>

theorem sync_rerun_keeps_values:
  "map_option snapshotValues
     (player_stats (snd (updateAllPlayerStats feed t2 (snd (updateAllPlayerStats feed t1 db)))) k)
   = map_option snapshotValues (player_stats (snd (updateAllPlayerStats feed t1 db)) k) \<and>
   player_stats (snd (updateAllPlayerStats feed t2 (snd (updateAllPlayerStats feed t1 db))))
   = player_stats (snd (updateAllPlayerStats feed t2 db))"
proof -
  let ?ps = "filter p_is_active (players db)"
  let ?m1 = "map_of (rev (runWrites feed t1 ?ps))"
  let ?m2 = "map_of (rev (runWrites feed t2 ?ps))"
  have m2: "?m2 = map_option (\<lambda>v. v\<lparr>ps_updated_at := t2\<rparr>) \<circ> ?m1"
    using runWrites_restamp [of feed t2 ?ps t1] by (simp add: map_of_restamp)
  have first: "player_stats (snd (updateAllPlayerStats feed t1 db)) = player_stats db ++ ?m1"
    by (rule player_stats_after_run)
  have second:
    "player_stats (snd (updateAllPlayerStats feed t2 (snd (updateAllPlayerStats feed t1 db))))
     = (player_stats db ++ ?m1) ++ ?m2"
    by (simp add: player_stats_after_run)
  have single: "player_stats (snd (updateAllPlayerStats feed t2 db)) = player_stats db ++ ?m2"
    by (rule player_stats_after_run)
  show ?thesis
    unfolding first second single
    using rerun_values [OF m2] rerun_table [OF m2] by simp
qed

lemma pointFeed_first_run:
  "player_stats (snd (updateAllPlayerStats pointFeed 1 poolDb)) (10, 1) =
     Some \<lparr>ps_goals = 1, ps_assists = 1, ps_wins = 0, ps_shutouts = 0, ps_games_played = 1,
           ps_updated_at = 1\<rparr>"
  by (simp add: player_stats_after_run runWrites_def playerWrites_def pointFeed_def poolDb_def
      parseGameLogStats_def gameStep_def skaterUpdate_def orZero_def zeroStats_def
      determineRound_by_code embeddedCode_def isDecimalDigit_def)

theorem sync_rerun_keeps_values_witness:
  "map_option snapshotValues
     (player_stats (snd (updateAllPlayerStats pointFeed 2
        (snd (updateAllPlayerStats pointFeed 1 poolDb)))) (10, 1)) = Some (1, 1, 0, 0, 1)"
proof -
  have "map_option snapshotValues
          (player_stats (snd (updateAllPlayerStats pointFeed 2
             (snd (updateAllPlayerStats pointFeed 1 poolDb)))) (10, 1))
        = map_option snapshotValues
            (player_stats (snd (updateAllPlayerStats pointFeed 1 poolDb)) (10, 1))"
    using sync_rerun_keeps_values [of pointFeed 2 1 poolDb "(10, 1)"] by (rule conjunct1)
  then show ?thesis
    unfolding pointFeed_first_run by (simp add: snapshotValues_def)
qed

text \<open>
  Claim C8 as stated fails on the timestamp: the snapshot of player 10 for round 1 is
  stamped 1 by a first run and 2 by a second run with the same feed.
\<close>

theorem sync_rerun_restamps_snapshot:
  "player_stats (snd (updateAllPlayerStats pointFeed 2
      (snd (updateAllPlayerStats pointFeed 1 poolDb)))) (10, 1) =
     Some \<lparr>ps_goals = 1, ps_assists = 1, ps_wins = 0, ps_shutouts = 0, ps_games_played = 1,
           ps_updated_at = 2\<rparr> \<and>
   player_stats (snd (updateAllPlayerStats pointFeed 1 poolDb)) (10, 1) =
     Some \<lparr>ps_goals = 1, ps_assists = 1, ps_wins = 0, ps_shutouts = 0, ps_games_played = 1,
           ps_updated_at = 1\<rparr>"
  by (simp add: player_stats_after_run runWrites_def playerWrites_def pointFeed_def poolDb_def
      parseGameLogStats_def gameStep_def skaterUpdate_def orZero_def zeroStats_def
      determineRound_by_code embeddedCode_def isDecimalDigit_def)

text \<open>
  Claim C9, as the code has it. A complete run writes the run's time to the
  \<open>stats_last_updated\<close> setting and the value true to the \<open>stats_verified\<close> setting,
  each where the settings row exists, and leaves every other setting as it was.
\<close>

theorem sync_sets_verified:
  "settings (snd (updateAllPlayerStats feed now db)) k =
     (if k \<in> dom (settings db) \<and> k = ''stats_verified'' then Some (JBool True)
      else if k \<in> dom (settings db) \<and> k = ''stats_last_updated'' then Some (JTimestamp now)
      else settings db k)"
  by (auto simp: settings_after_run updateSetting_def)

theorem sync_sets_verified_witness:
  "settings (snd (updateAllPlayerStats pointFeed 7 poolDb)) ''stats_last_updated'' =
     Some (JTimestamp 7) \<and>
   settings (snd (updateAllPlayerStats pointFeed 7 poolDb)) ''current_round'' = None"
  using sync_sets_verified [of pointFeed 7 poolDb "''stats_last_updated''"]
    sync_sets_verified [of pointFeed 7 poolDb "''current_round''"]
  by (simp add: poolDb_def)

text \<open>
  Claim C9 as stated fails: the flag is false before the run and true after it.
\<close>

theorem sync_changes_verified_flag:
  "settings poolDb ''stats_verified'' = Some (JBool False) \<and>
   settings (snd (updateAllPlayerStats pointFeed 7 poolDb)) ''stats_verified'' =
     Some (JBool True)"
  by (simp add: settings_after_run updateSetting_def poolDb_def)

section \<open>Properties of roster save\<close>

lemma openRound_saveRoster:
  assumes "openRound db now roundParam round"
  shows "saveRoster db now userId roundParam sel st tb =
     (case rosterResult db userId round of
        Some r \<Rightarrow>
          if r_is_submitted r then (Inl AlreadySubmitted, db)
          else savePlayers
                 (db\<lparr>roster_players :=
                       filter (\<lambda>rp. rp_roster_id rp \<noteq> r_id r) (roster_players db)\<rparr>)
                 (r_id r) userId round sel st tb
      | None \<Rightarrow>
          if \<not> userExists db userId then (Inl InvalidPlayerSelection, db)
          else savePlayers (db\<lparr>rosters := rosters db @ [newRoster db userId round]\<rparr>)
                 (newRosterId (rosters db)) userId round sel st tb)"
  using assms by (auto simp: openRound_def saveRoster_def split: option.splits)

lemma openRound_saveRoster_part006:
  assumes "openRound db now roundParam round"
  shows "saveRoster_part006 db now userId roundParam sel st tb =
           saveTransaction db userId round sel st tb"
  using assms by (auto simp: openRound_def saveRoster_part006_def split: option.splits)

lemma saveRoster_shape:
  "(\<exists>e. e \<noteq> OverSalaryCap \<and> saveRoster db now userId roundParam sel st tb = (Inl e, db)) \<or>
   (\<exists>round r. parseInt roundParam = Some round \<and> rosterResult db userId round = Some r \<and>
      \<not> r_is_submitted r \<and>
      saveRoster db now userId roundParam sel st tb =
        savePlayers (db\<lparr>roster_players :=
                          filter (\<lambda>rp. rp_roster_id rp \<noteq> r_id r) (roster_players db)\<rparr>)
          (r_id r) userId round sel st tb) \<or>
   (\<exists>round. parseInt roundParam = Some round \<and> rosterResult db userId round = None \<and>
      saveRoster db now userId roundParam sel st tb =
        savePlayers (db\<lparr>rosters := rosters db @ [newRoster db userId round]\<rparr>)
          (newRosterId (rosters db)) userId round sel st tb)"
  by (simp add: saveRoster_def split: option.splits)


lemma playerData_frame [simp]:
  "playerData (db\<lparr>roster_players := x\<rparr>) ids = playerData db ids"
  "playerData (db\<lparr>rosters := y\<rparr>) ids = playerData db ids"
  by (simp_all add: playerData_def)

lemma playerData_empty [simp]: "playerData db [] = []"
  by (simp add: playerData_def)








lemma salaryTotal_empty [simp]: "salaryTotal db [] = 0"
  by (simp add: salaryTotal_def)







section \<open>A submitted roster and roster save\<close>

lemma foldl_max_lower: "(a::int) \<le> foldl max a zs"
proof (induction zs arbitrary: a)
  case Nil
  then show ?case by simp
next
  case (Cons z zs)
  have "a \<le> max a z" by simp
  also have "max a z \<le> foldl max (max a z) zs" by (rule Cons.IH)
  finally show ?case by simp
qed

lemma foldl_max_upper: "(x::int) \<in> set xs \<Longrightarrow> x \<le> foldl max a xs"
proof (induction xs arbitrary: a)
  case Nil
  then show ?case by simp
next
  case (Cons y ys)
  show ?case
  proof (cases "x = y")
    case True
    have "y \<le> max a y" by simp
    also have "max a y \<le> foldl max (max a y) ys" by (rule foldl_max_lower)
    finally show ?thesis using True by simp
  next
    case False
    with Cons.prems have "x \<in> set ys" by simp
    then show ?thesis using Cons.IH by simp
  qed
qed

lemma newRosterId_fresh: "r \<in> set rs \<Longrightarrow> r_id r \<noteq> newRosterId rs"
  using foldl_max_upper [of "r_id r" "map r_id rs" 0] by (auto simp: newRosterId_def)

lemma rosterResult_member: "rosterResult db userId round = Some r \<Longrightarrow> r \<in> set (rosters db)"
  by (auto simp: rosterResult_def find_Some_iff)

lemma insertPlayerData_other:
  "k \<noteq> rosterId \<Longrightarrow>
     filter (\<lambda>rp. rp_roster_id rp = k) (snd (insertPlayerData st rosterId rows tbl)) =
     filter (\<lambda>rp. rp_roster_id rp = k) tbl"
  by (induction st rosterId rows tbl rule: insertPlayerData.induct)
    (auto split: option.splits)

lemma upsertTiebreakers_frame:
  "upsertTiebreakers db userId round a1 a2 = Inr db' \<Longrightarrow>
     rosters db' = rosters db \<and> roster_players db' = roster_players db"
  by (auto simp: upsertTiebreakers_def split: if_splits)

lemma savePlayers_result:
  "snd (savePlayers db rosterId userId round sel st tb) = db \<or>
   (\<exists>s e tbl. sel = Some s \<and>
      insertPlayerData st rosterId (playerData db (collectPlayerIds s)) (roster_players db)
        = (e, tbl) \<and>
      (snd (savePlayers db rosterId userId round sel st tb) = db\<lparr>roster_players := tbl\<rparr> \<or>
       (\<exists>a1 a2. upsertTiebreakers (db\<lparr>roster_players := tbl\<rparr>) userId round a1 a2 =
          Inr (snd (savePlayers db rosterId userId round sel st tb)))))"
proof (cases sel)
  case None
  then show ?thesis by (simp add: savePlayers_def)
next
  case (Some s)
  obtain e tbl where ins:
    "insertPlayerData st rosterId (playerData db (collectPlayerIds s)) (roster_players db)
       = (e, tbl)"
    by (cases "insertPlayerData st rosterId (playerData db (collectPlayerIds s))
      (roster_players db)")
  show ?thesis
  proof (cases "collectPlayerIds s = [] \<or> (\<exists>pid \<in> set (collectPlayerIds s). \<not> pgInteger pid)
      \<or> totalCost (playerData db (collectPlayerIds s)) > SALARY_CAP")
    case True
    then have "snd (savePlayers db rosterId userId round sel st tb) = db"
      by (auto simp: savePlayers_def Some Let_def)
    then show ?thesis by simp
  next
    case False
    show ?thesis
    proof (cases e)
      case (Some err)
      with False ins have "snd (savePlayers db rosterId userId round sel st tb)
          = db\<lparr>roster_players := tbl\<rparr>"
        by (simp add: savePlayers_def \<open>sel = Some s\<close> Let_def)
      with ins \<open>sel = Some s\<close> show ?thesis by blast
    next
      case None
      show ?thesis
      proof (cases tb)
        case tbNone: None
        with False ins None have "snd (savePlayers db rosterId userId round sel st tb)
            = db\<lparr>roster_players := tbl\<rparr>"
          by (simp add: savePlayers_def \<open>sel = Some s\<close> Let_def)
        with ins \<open>sel = Some s\<close> show ?thesis by blast
      next
        case (Some a)
        show ?thesis
        proof (cases "upsertTiebreakers (db\<lparr>roster_players := tbl\<rparr>) userId round (q1 a) (q2 a)")
          case (Inl err)
          with False ins None Some have "snd (savePlayers db rosterId userId round sel st tb)
              = db\<lparr>roster_players := tbl\<rparr>"
            by (simp add: savePlayers_def \<open>sel = Some s\<close> Let_def)
          with ins \<open>sel = Some s\<close> show ?thesis by blast
        next
          case (Inr db')
          with False ins None Some have "snd (savePlayers db rosterId userId round sel st tb) = db'"
            by (simp add: savePlayers_def \<open>sel = Some s\<close> Let_def)
          with Inr ins \<open>sel = Some s\<close> show ?thesis by blast
        qed
      qed
    qed
  qed
qed

lemma savePlayers_rosters:
  "rosters (snd (savePlayers db rosterId userId round sel st tb)) = rosters db"
  using savePlayers_result [of db rosterId userId round sel st tb]
proof (elim disjE exE conjE)
  fix s e tbl a1 a2
  assume "upsertTiebreakers (db\<lparr>roster_players := tbl\<rparr>) userId round a1 a2 =
          Inr (snd (savePlayers db rosterId userId round sel st tb))"
  then show ?thesis by (auto dest: upsertTiebreakers_frame)
qed simp_all

lemma savePlayers_other:
  assumes "k \<noteq> rosterId"
  shows "selectionsOf (snd (savePlayers db rosterId userId round sel st tb)) k = selectionsOf db k"
  using savePlayers_result [of db rosterId userId round sel st tb]
proof (elim disjE exE conjE)
  assume "snd (savePlayers db rosterId userId round sel st tb) = db"
  then show ?thesis by simp
next
  fix s e tbl
  assume ins: "insertPlayerData st rosterId (playerData db (collectPlayerIds s))
      (roster_players db) = (e, tbl)"
  then have tbl: "filter (\<lambda>rp. rp_roster_id rp = k) tbl =
      filter (\<lambda>rp. rp_roster_id rp = k) (roster_players db)"
    using insertPlayerData_other [OF assms, of st "playerData db (collectPlayerIds s)"
        "roster_players db"] by simp
  {
    assume "snd (savePlayers db rosterId userId round sel st tb) = db\<lparr>roster_players := tbl\<rparr>"
    then show ?thesis by (simp add: selectionsOf_def tbl)
  next
    fix a1 a2
    assume "upsertTiebreakers (db\<lparr>roster_players := tbl\<rparr>) userId round a1 a2 =
          Inr (snd (savePlayers db rosterId userId round sel st tb))"
    then have "roster_players (snd (savePlayers db rosterId userId round sel st tb)) = tbl"
      by (auto dest: upsertTiebreakers_frame)
    then show ?thesis by (simp add: selectionsOf_def tbl)
  }
qed

lemma saveRoster_keeps_submitted:
  assumes "distinct (map r_id (rosters db))" "r \<in> set (rosters db)" "r_is_submitted r"
  shows "r \<in> set (rosters (snd (saveRoster db now userId roundParam sel st tb))) \<and>
         selectionsOf (snd (saveRoster db now userId roundParam sel st tb)) (r_id r) =
           selectionsOf db (r_id r)"
  using saveRoster_shape [of db now userId roundParam sel st tb]
proof (elim disjE exE conjE)
  fix e assume "saveRoster db now userId roundParam sel st tb = (Inl e, db)"
  with assms(2) show ?thesis by simp
next
  fix round r'
  assume other: "rosterResult db userId round = Some r'" "\<not> r_is_submitted r'"
    and eq: "saveRoster db now userId roundParam sel st tb =
        savePlayers (db\<lparr>roster_players :=
                          filter (\<lambda>rp. rp_roster_id rp \<noteq> r_id r') (roster_players db)\<rparr>)
          (r_id r') userId round sel st tb"
  from other have "r' \<in> set (rosters db)" "r' \<noteq> r"
    using assms(3) by (auto dest: rosterResult_member)
  with assms(1,2) have ne: "r_id r \<noteq> r_id r'"
    by (auto simp: distinct_map inj_on_def)
  have "selectionsOf (db\<lparr>roster_players :=
          filter (\<lambda>rp. rp_roster_id rp \<noteq> r_id r') (roster_players db)\<rparr>) (r_id r)
        = selectionsOf db (r_id r)"
    using ne by (auto simp: selectionsOf_def intro: filter_cong)
  with ne assms(2) show ?thesis
    by (simp add: eq savePlayers_rosters savePlayers_other)
next
  fix round
  assume eq: "saveRoster db now userId roundParam sel st tb =
        savePlayers (db\<lparr>rosters := rosters db @ [newRoster db userId round]\<rparr>)
          (newRosterId (rosters db)) userId round sel st tb"
  have ne: "r_id r \<noteq> newRosterId (rosters db)"
    using assms(2) by (rule newRosterId_fresh)
  have "selectionsOf (db\<lparr>rosters := rosters db @ [newRoster db userId round]\<rparr>) (r_id r)
        = selectionsOf db (r_id r)"
    by (simp add: selectionsOf_def)
  with ne assms(2) show ?thesis
    by (simp add: eq savePlayers_rosters savePlayers_other)
qed

text \<open>
  Claim C1. A save addressed to a submitted roster (the roster of the user for the round
  of the request) is rejected and leaves the whole database as it was; in a valid round
  that has a deadline and is not locked the rejection is the one for a roster already
  submitted, which comes before the handler's only delete. Moreover, where roster ids
  are unique, no save request at all changes a submitted roster: the roster row and its
  selections with their star designations are the same afterwards.
\<close>

theorem submitted_roster_immutable:
  "(parseInt roundParam = Some round \<and> rosterResult db userId round = Some r \<and>
    r_is_submitted r \<longrightarrow>
      (\<exists>e. saveRoster db now userId roundParam sel st tb = (Inl e, db)) \<and>
      (openRound db now roundParam round \<longrightarrow>
         saveRoster db now userId roundParam sel st tb = (Inl AlreadySubmitted, db))) \<and>
   (distinct (map r_id (rosters db)) \<and> r \<in> set (rosters db) \<and> r_is_submitted r \<longrightarrow>
      r \<in> set (rosters (snd (saveRoster db now userId roundParam sel st tb))) \<and>
      selectionsOf (snd (saveRoster db now userId roundParam sel st tb)) (r_id r) =
        selectionsOf db (r_id r))"
proof (intro conjI impI)
  assume a: "parseInt roundParam = Some round \<and> rosterResult db userId round = Some r \<and>
    r_is_submitted r"
  then show "\<exists>e. saveRoster db now userId roundParam sel st tb = (Inl e, db)"
    by (simp add: saveRoster_def split: option.splits)
  show "saveRoster db now userId roundParam sel st tb = (Inl AlreadySubmitted, db)"
    if "openRound db now roundParam round"
    using a that by (simp add: openRound_saveRoster [of db now roundParam round])
next
  assume "distinct (map r_id (rosters db)) \<and> r \<in> set (rosters db) \<and> r_is_submitted r"
  then show "r \<in> set (rosters (snd (saveRoster db now userId roundParam sel st tb)))"
    and "selectionsOf (snd (saveRoster db now userId roundParam sel st tb)) (r_id r) =
        selectionsOf db (r_id r)"
    using saveRoster_keeps_submitted [of db r now userId roundParam sel st tb] by simp_all
qed

section \<open>Saving an empty selection set\<close>

lemma orNull_fits: "pgIntegerOrNull a \<Longrightarrow> pgIntegerOrNull (orNull a)"
  by (simp add: orNull_def pgIntegerOrNull_def)

lemma saveTransaction_empty:
  assumes "collectPlayerIds s = []" "userExists db userId" "answersFit tb"
  shows "fst (saveTransaction db userId round (Some s) st tb) =
           Inr (case rosterResult db userId round of
                  None \<Rightarrow> newRosterId (rosters db) | Some r \<Rightarrow> r_id r) \<and>
         roster_players (snd (saveTransaction db userId round (Some s) st tb)) =
           filter (\<lambda>rp. rp_roster_id rp \<noteq>
               (case rosterResult db userId round of
                  None \<Rightarrow> newRosterId (rosters db) | Some r \<Rightarrow> r_id r))
             (roster_players db)"
proof (cases tb)
  case None
  with assms show ?thesis
    by (simp add: saveTransaction_def Let_def split: option.splits)
next
  case (Some a)
  with assms(3) have fit: "pgIntegerOrNull (orNull (q1 a))" "pgIntegerOrNull (orNull (q2 a))"
    by (simp_all add: answersFit_def orNull_fits)
  have up: "upsertTiebreakers db' userId round (orNull (q1 a)) (orNull (q2 a)) =
      Inr (db'\<lparr>tiebreakers := (tiebreakers db')((userId, round) \<mapsto>
                 (orNull (q1 a), orNull (q2 a)))\<rparr>)"
    if "users db' = users db" for db'
    using fit assms(2) that by (simp add: upsertTiebreakers_def userExists_def)
  show ?thesis
    using assms(1,2) Some
    by (simp add: saveTransaction_def Let_def up split: option.splits)
qed

text \<open>
  Claim C10, as the code has it. In a valid round that has a deadline and is not locked,
  a save by an existing user whose selection lists are all empty or missing is answered
  without any salary-cap or qualification check, whatever the players, their costs and
  the qualified teams are. The mounted handler rejects it when the user's roster for the
  round is already submitted, and changes nothing; otherwise it succeeds and leaves that
  roster (created if there was none) without any selection, the selections of every other
  roster being kept. The second version, which stores the tiebreaker answers with the
  save, succeeds in the same way when the answers fit the integer columns.
\<close>

theorem empty_save_succeeds:
  assumes "openRound db now roundParam round" "collectPlayerIds s = []"
    and "userExists db userId"
  shows "(case rosterResult db userId round of
            None \<Rightarrow>
              saveRoster db now userId roundParam (Some s) st tb =
                (Inr SavedEmpty, db\<lparr>rosters := rosters db @ [newRoster db userId round]\<rparr>)
          | Some r \<Rightarrow>
              if r_is_submitted r
              then saveRoster db now userId roundParam (Some s) st tb =
                     (Inl AlreadySubmitted, db)
              else saveRoster db now userId roundParam (Some s) st tb =
                     (Inr SavedEmpty,
                      db\<lparr>roster_players :=
                            filter (\<lambda>rp. rp_roster_id rp \<noteq> r_id r) (roster_players db)\<rparr>)) \<and>
         (answersFit tb \<longrightarrow>
            (\<exists>rosterId.
               rosterId = (case rosterResult db userId round of
                             None \<Rightarrow> newRosterId (rosters db) | Some r \<Rightarrow> r_id r) \<and>
               fst (saveRoster_part006 db now userId roundParam (Some s) st tb) = Inr rosterId \<and>
               roster_players (snd (saveRoster_part006 db now userId roundParam (Some s) st tb)) =
                 filter (\<lambda>rp. rp_roster_id rp \<noteq> rosterId) (roster_players db)))"
proof
  show "case rosterResult db userId round of
            None \<Rightarrow>
              saveRoster db now userId roundParam (Some s) st tb =
                (Inr SavedEmpty, db\<lparr>rosters := rosters db @ [newRoster db userId round]\<rparr>)
          | Some r \<Rightarrow>
              if r_is_submitted r
              then saveRoster db now userId roundParam (Some s) st tb =
                     (Inl AlreadySubmitted, db)
              else saveRoster db now userId roundParam (Some s) st tb =
                     (Inr SavedEmpty,
                      db\<lparr>roster_players :=
                            filter (\<lambda>rp. rp_roster_id rp \<noteq> r_id r) (roster_players db)\<rparr>)"
    using assms(2,3)
    by (simp add: openRound_saveRoster [OF assms(1)] savePlayers_def split: option.splits)
  show "answersFit tb \<longrightarrow>
            (\<exists>rosterId.
               rosterId = (case rosterResult db userId round of
                             None \<Rightarrow> newRosterId (rosters db) | Some r \<Rightarrow> r_id r) \<and>
               fst (saveRoster_part006 db now userId roundParam (Some s) st tb) = Inr rosterId \<and>
               roster_players (snd (saveRoster_part006 db now userId roundParam (Some s) st tb)) =
                 filter (\<lambda>rp. rp_roster_id rp \<noteq> rosterId) (roster_players db))"
    using saveTransaction_empty [OF assms(2,3), of tb round st]
    by (simp add: openRound_saveRoster_part006 [OF assms(1)])
qed

section \<open>Properties of roster submit\<close>

lemma length_by_counts:
  "length rows =
     counts rows Western Forward + counts rows Western Defense + counts rows Western Goalie +
     counts rows Eastern Forward + counts rows Eastern Defense + counts rows Eastern Goalie"
proof (induction rows)
  case Nil
  then show ?case by (simp add: counts_def)
next
  case (Cons row rows)
  obtain p c s where row: "row = (p, c, s)" by (cases row)
  show ?case
    using Cons.IH by (cases p; cases c) (simp_all add: counts_def row)
qed

lemma isComplete_length: "isComplete rows \<Longrightarrow> length rows = 12"
  using length_by_counts [of rows] by (simp add: isComplete_def)

lemma starCount_Cons:
  "starCount ((p, c, s) # rows) = (if s then 1 else 0) + starCount rows"
  by (simp add: starCount_def)

lemma selectionRows_star:
  "row \<in> set (selectionRows db rp) \<Longrightarrow> snd (snd row) = rp_is_star rp"
  by (auto simp: selectionRows_def)

lemma joinsOnce_row:
  assumes "joinsOnce db rp"
  shows "\<exists>p c. selectionRows db rp = [(p, c, rp_is_star rp)]"
proof -
  from assms obtain row where one: "selectionRows db rp = [row]"
    by (auto simp: joinsOnce_def length_Suc_conv)
  then have "snd (snd row) = rp_is_star rp"
    using selectionRows_star [of row db rp] by simp
  with one show ?thesis by (cases row) simp
qed

lemma joinsOnce_rows:
  assumes "\<forall>rp\<in>set rps. joinsOnce db rp"
  shows "length (concat (map (selectionRows db) rps)) = length rps \<and>
         starCount (concat (map (selectionRows db) rps)) = length (filter rp_is_star rps)"
  using assms
proof (induction rps)
  case Nil
  then show ?case by (simp add: starCount_def)
next
  case (Cons rp rps)
  from Cons.prems have "joinsOnce db rp" by simp
  then obtain p c where one: "selectionRows db rp = [(p, c, rp_is_star rp)]"
    using joinsOnce_row by blast
  from Cons have ih: "length (concat (map (selectionRows db) rps)) = length rps"
    "starCount (concat (map (selectionRows db) rps)) = length (filter rp_is_star rps)"
    by simp_all
  from one ih show ?case
    by (simp add: starCount_Cons)
qed

lemma submitRoster_success:
  assumes "fst (submitRoster db now userId roundParam) = Inr ()"
  shows "\<exists>round r. parseInt roundParam = Some round \<and> rosterResult db userId round = Some r \<and>
           isComplete (playersResult db (r_id r))"
  using assms
  by (auto simp: submitRoster_def split: option.splits if_splits)

lemma submitRoster_part006_success:
  assumes "fst (submitRoster_part006 db now userId roundParam) = Inr ()"
  shows "\<exists>round r. parseInt roundParam = Some round \<and> rosterResult db userId round = Some r \<and>
           isComplete (playersResult db (r_id r))"
  using assms
  by (auto simp: submitRoster_part006_def split: option.splits if_splits)

lemma openRound_submitRoster:
  assumes "openRound db now roundParam round" "rosterResult db userId round = Some r"
  shows "submitRoster db now userId roundParam =
     (if r_is_submitted r then (Inl AlreadySubmitted, db)
      else if isComplete (playersResult db (r_id r))
      then (Inr (), markSubmitted db now (r_id r))
      else (Inl RosterIncomplete, db))"
  using assms
  by (auto simp: openRound_def submitRoster_def split: option.splits)

lemma openRound_submitRoster_part006:
  assumes "openRound db now roundParam round" "rosterResult db userId round = Some r"
  shows "submitRoster_part006 db now userId roundParam =
     (if isComplete (playersResult db (r_id r))
      then (Inr (), markSubmitted db now (r_id r))
      else (Inl RosterIncomplete, db))"
  using assms
  by (auto simp: openRound_def submitRoster_part006_def pgInteger_def split: option.splits)

text \<open>
  Claim C4, as the code has it. Both versions of the submit handler count the rows that
  join a selection of the roster with its player and the player's team. Submit succeeds
  only when these rows hold exactly 3 forwards, 2 defensemen and 1 goaltender of each
  conference, 12 rows in all, of which exactly 3 are starred; the roles of the starred
  players are not examined. When every selection of the roster joins exactly one player
  and team, the roster itself then has 12 selections of which 3 are starred. In a valid
  round that has a deadline and is not locked, a roster (not yet submitted, for the
  mounted handler) is marked as submitted when the counts are these, and is rejected as
  incomplete, the database left as it was, whenever one of them differs.
\<close>

theorem submit_requires_composition:
  "(fst (submitRoster db now userId roundParam) = Inr () \<or>
    fst (submitRoster_part006 db now userId roundParam) = Inr () \<longrightarrow>
      (\<exists>round r rows. parseInt roundParam = Some round \<and>
         rosterResult db userId round = Some r \<and> rows = playersResult db (r_id r) \<and>
         counts rows Western Forward = 3 \<and> counts rows Western Defense = 2 \<and>
         counts rows Western Goalie = 1 \<and>
         counts rows Eastern Forward = 3 \<and> counts rows Eastern Defense = 2 \<and>
         counts rows Eastern Goalie = 1 \<and>
         starCount rows = 3 \<and> length rows = 12 \<and>
         ((\<forall>rp\<in>set (selectionsOf db (r_id r)). joinsOnce db rp) \<longrightarrow>
            length (selectionsOf db (r_id r)) = 12 \<and>
            length (filter rp_is_star (selectionsOf db (r_id r))) = 3))) \<and>
   (openRound db now roundParam round \<and> rosterResult db userId round = Some r \<and>
    rows = playersResult db (r_id r) \<longrightarrow>
      (if counts rows Western Forward = 3 \<and> counts rows Western Defense = 2 \<and>
          counts rows Western Goalie = 1 \<and>
          counts rows Eastern Forward = 3 \<and> counts rows Eastern Defense = 2 \<and>
          counts rows Eastern Goalie = 1 \<and> starCount rows = 3
       then (\<not> r_is_submitted r \<longrightarrow>
               submitRoster db now userId roundParam = (Inr (), markSubmitted db now (r_id r))) \<and>
            submitRoster_part006 db now userId roundParam =
              (Inr (), markSubmitted db now (r_id r))
       else (\<not> r_is_submitted r \<longrightarrow>
               submitRoster db now userId roundParam = (Inl RosterIncomplete, db)) \<and>
            submitRoster_part006 db now userId roundParam = (Inl RosterIncomplete, db)))"
proof (intro conjI impI)
  assume "fst (submitRoster db now userId roundParam) = Inr () \<or>
    fst (submitRoster_part006 db now userId roundParam) = Inr ()"
  then obtain round r where ok: "parseInt roundParam = Some round"
    "rosterResult db userId round = Some r" "isComplete (playersResult db (r_id r))"
    using submitRoster_success submitRoster_part006_success by blast
  from ok(3) have len: "length (playersResult db (r_id r)) = 12" by (rule isComplete_length)
  from ok(3) have stars: "starCount (playersResult db (r_id r)) = 3"
    by (simp add: isComplete_def)
  have sel: "length (selectionsOf db (r_id r)) = 12 \<and>
      length (filter rp_is_star (selectionsOf db (r_id r))) = 3"
    if "\<forall>rp\<in>set (selectionsOf db (r_id r)). joinsOnce db rp"
    using joinsOnce_rows [OF that] len stars by (simp add: playersResult_def)
  from ok len sel
  show "\<exists>round r rows. parseInt roundParam = Some round \<and>
         rosterResult db userId round = Some r \<and> rows = playersResult db (r_id r) \<and>
         counts rows Western Forward = 3 \<and> counts rows Western Defense = 2 \<and>
         counts rows Western Goalie = 1 \<and>
         counts rows Eastern Forward = 3 \<and> counts rows Eastern Defense = 2 \<and>
         counts rows Eastern Goalie = 1 \<and>
         starCount rows = 3 \<and> length rows = 12 \<and>
         ((\<forall>rp\<in>set (selectionsOf db (r_id r)). joinsOnce db rp) \<longrightarrow>
            length (selectionsOf db (r_id r)) = 12 \<and>
            length (filter rp_is_star (selectionsOf db (r_id r))) = 3)"
    by (simp add: isComplete_def)
next
  assume a: "openRound db now roundParam round \<and> rosterResult db userId round = Some r \<and>
    rows = playersResult db (r_id r)"
  then have 1: "openRound db now roundParam round" and 2: "rosterResult db userId round = Some r"
    and 3: "rows = playersResult db (r_id r)" by simp_all
  show "if counts rows Western Forward = 3 \<and> counts rows Western Defense = 2 \<and>
          counts rows Western Goalie = 1 \<and>
          counts rows Eastern Forward = 3 \<and> counts rows Eastern Defense = 2 \<and>
          counts rows Eastern Goalie = 1 \<and> starCount rows = 3
       then (\<not> r_is_submitted r \<longrightarrow>
               submitRoster db now userId roundParam = (Inr (), markSubmitted db now (r_id r))) \<and>
            submitRoster_part006 db now userId roundParam =
              (Inr (), markSubmitted db now (r_id r))
       else (\<not> r_is_submitted r \<longrightarrow>
               submitRoster db now userId roundParam = (Inl RosterIncomplete, db)) \<and>
            submitRoster_part006 db now userId roundParam = (Inl RosterIncomplete, db)"
    unfolding openRound_submitRoster [OF 1 2] openRound_submitRoster_part006 [OF 1 2] 3
    by (simp add: isComplete_def)
qed

section \<open>The handlers on the roster database\<close>

lemma rosterDb_fields:
  "rosters rosterDb = []" "roster_players rosterDb = []"
  "rounds rosterDb = [\<lparr>round_number = 1, pick_deadline = Some 100\<rparr>,
                      \<lparr>round_number = 2, pick_deadline = None\<rparr>]"
  "players rosterDb =
     [mkPlayer 1 ''EDM'' Forward 3, mkPlayer 2 ''EDM'' Forward 3, mkPlayer 3 ''EDM'' Forward 3,
      mkPlayer 4 ''EDM'' Defense 2, mkPlayer 5 ''EDM'' Defense 2, mkPlayer 6 ''EDM'' Goalie 2,
      mkPlayer 7 ''FLA'' Forward 3, mkPlayer 8 ''FLA'' Forward 3, mkPlayer 9 ''FLA'' Forward 3,
      mkPlayer 10 ''FLA'' Defense 2, mkPlayer 11 ''FLA'' Defense 2, mkPlayer 12 ''FLA'' Goalie 2,
      mkPlayer 13 ''EDM'' Forward 1]"
  "teams rosterDb = [\<lparr>t_abbrev = ''EDM'', t_conference = Western\<rparr>,
                     \<lparr>t_abbrev = ''FLA'', t_conference = Eastern\<rparr>]"
  "users rosterDb = [ann, bob]"
  by (simp_all add: rosterDb_def)

lemma rosterDb_users: "userExists rosterDb 1" "userExists rosterDb 2"
  by (simp_all add: userExists_def rosterDb_fields ann_def bob_def)

lemma open_round1:
  assumes "rounds db = rounds rosterDb" "now \<le> 100"
  shows "openRound db now ''1'' 1"
  using assms
  by (simp add: openRound_def parseInt_one isDecimalDigit_def lockResult_def rosterDb_fields)

lemma selection_ids:
  "collectPlayerIds fullSelections = [1, 2, 3, 4, 5, 6, 7, 8, 9, 10, 11, 12]"
  "collectPlayerIds overCapSelections = [1, 2, 3, 13, 4, 5, 6, 7, 8, 9, 10, 11, 12]"
  "collectPlayerIds shortSelections = [1, 2, 4, 5, 6, 7, 8, 9, 10, 11, 12]"
  "collectPlayerIds emptySelections = []"
  by (simp_all add: collectPlayerIds_def positionLists_def fullSelections_def
      overCapSelections_def shortSelections_def emptySelections_def)


lemma rosterDb_playerData:
  "playerData rosterDb [1, 2, 3, 4, 5, 6, 7, 8, 9, 10, 11, 12] =
     [(1, 3, Forward, Western), (2, 3, Forward, Western), (3, 3, Forward, Western),
      (4, 2, Defense, Western), (5, 2, Defense, Western), (6, 2, Goalie, Western),
      (7, 3, Forward, Eastern), (8, 3, Forward, Eastern), (9, 3, Forward, Eastern),
      (10, 2, Defense, Eastern), (11, 2, Defense, Eastern), (12, 2, Goalie, Eastern)]"
  "playerData rosterDb [1, 2, 4, 5, 6, 7, 8, 9, 10, 11, 12] =
     [(1, 3, Forward, Western), (2, 3, Forward, Western),
      (4, 2, Defense, Western), (5, 2, Defense, Western), (6, 2, Goalie, Western),
      (7, 3, Forward, Eastern), (8, 3, Forward, Eastern), (9, 3, Forward, Eastern),
      (10, 2, Defense, Eastern), (11, 2, Defense, Eastern), (12, 2, Goalie, Eastern)]"
  "totalCost (playerData rosterDb [1, 2, 3, 13, 4, 5, 6, 7, 8, 9, 10, 11, 12]) = 31"
  by (simp_all add: playerData_def totalCost_def rosterDb_fields mkPlayer_def)


lemma rosterDb_qualified: "invalidCount rosterDb ids 1 = 0"
  by (simp add: invalidCount_def qualifiedTeams_def rosterDb_def mkPlayer_def)

lemma rosterDb_no_roster: "rosterResult rosterDb userId round = None"
  by (simp add: rosterResult_def rosterDb_fields)

lemma rosterDb_save:
  assumes "collectPlayerIds s \<noteq> []"
  shows "saveRoster rosterDb 10 1 ''1'' (Some s) st tb =
     savePlayers (rosterDb\<lparr>rosters := [newRoster rosterDb 1 1]\<rparr>) 1 1 1 (Some s) st tb"
    and "saveRoster rosterDb 10 2 ''1'' (Some s) st tb =
     savePlayers (rosterDb\<lparr>rosters := [newRoster rosterDb 2 1]\<rparr>) 1 2 1 (Some s) st tb"
  by (simp_all add: openRound_saveRoster [OF open_round1 [of rosterDb 10]] rosterDb_no_roster
      rosterDb_users newRosterId_def rosterDb_fields)

lemma newRoster_rosterDb:
  "newRoster rosterDb userId round =
     \<lparr>r_id = 1, r_user_id = userId, r_round = round, r_is_submitted = False,
      r_submitted_at = None\<rparr>"
  by (simp add: newRoster_def newRosterId_def rosterDb_fields)

lemma savedDb_result:
  "fst (saveRoster rosterDb 10 1 ''1'' (Some fullSelections) (Some roleStars) None) = Inr Saved"
  "rosters savedDb = [\<lparr>r_id = 1, r_user_id = 1, r_round = 1, r_is_submitted = False,
                        r_submitted_at = None\<rparr>]"
  "roster_players savedDb =
     map (\<lambda>(pid, star). \<lparr>rp_roster_id = 1, rp_player_id = pid, rp_is_star = star\<rparr>)
       [(1, True), (2, False), (3, False), (4, True), (5, False), (6, True),
        (7, False), (8, False), (9, False), (10, False), (11, False), (12, False)]"
  "players savedDb = players rosterDb" "teams savedDb = teams rosterDb"
  "rounds savedDb = rounds rosterDb" "users savedDb = users rosterDb"
  by (simp_all add: savedDb_def rosterDb_save selection_ids savePlayers_def Let_def
      pgInteger_def rosterDb_playerData totalCost_def SALARY_CAP_def roleStars_def
      newRoster_rosterDb rosterDb_fields)

lemma forwardStarsDb_result:
  "rosters forwardStarsDb =
     [\<lparr>r_id = 1, r_user_id = 2, r_round = 1, r_is_submitted = False, r_submitted_at = None\<rparr>]"
  "roster_players forwardStarsDb =
     map (\<lambda>(pid, star). \<lparr>rp_roster_id = 1, rp_player_id = pid, rp_is_star = star\<rparr>)
       [(1, True), (2, True), (3, True), (4, False), (5, False), (6, False),
        (7, False), (8, False), (9, False), (10, False), (11, False), (12, False)]"
  "players forwardStarsDb = players rosterDb" "teams forwardStarsDb = teams rosterDb"
  "rounds forwardStarsDb = rounds rosterDb"
  by (simp_all add: forwardStarsDb_def rosterDb_save selection_ids savePlayers_def Let_def
      pgInteger_def rosterDb_playerData totalCost_def SALARY_CAP_def forwardStars_def
      newRoster_rosterDb rosterDb_fields)

lemma shortDb_result:
  "rosters shortDb =
     [\<lparr>r_id = 1, r_user_id = 1, r_round = 1, r_is_submitted = False, r_submitted_at = None\<rparr>]"
  "roster_players shortDb =
     map (\<lambda>(pid, star). \<lparr>rp_roster_id = 1, rp_player_id = pid, rp_is_star = star\<rparr>)
       [(1, True), (2, False), (4, True), (5, False), (6, True),
        (7, False), (8, False), (9, False), (10, False), (11, False), (12, False)]"
  "players shortDb = players rosterDb" "teams shortDb = teams rosterDb"
  "rounds shortDb = rounds rosterDb"
  by (simp_all add: shortDb_def rosterDb_save selection_ids savePlayers_def Let_def
      pgInteger_def rosterDb_playerData totalCost_def SALARY_CAP_def roleStars_def
      newRoster_rosterDb rosterDb_fields)

lemma saved_rosters:
  "rosterResult savedDb 1 1 =
     Some \<lparr>r_id = 1, r_user_id = 1, r_round = 1, r_is_submitted = False, r_submitted_at = None\<rparr>"
  "rosterResult forwardStarsDb 2 1 =
     Some \<lparr>r_id = 1, r_user_id = 2, r_round = 1, r_is_submitted = False, r_submitted_at = None\<rparr>"
  "rosterResult shortDb 1 1 =
     Some \<lparr>r_id = 1, r_user_id = 1, r_round = 1, r_is_submitted = False, r_submitted_at = None\<rparr>"
  by (simp_all add: rosterResult_def savedDb_result forwardStarsDb_result shortDb_result)

lemma savedDb_rows:
  "playersResult savedDb 1 =
     [(Forward, Western, True), (Forward, Western, False), (Forward, Western, False),
      (Defense, Western, True), (Defense, Western, False), (Goalie, Western, True),
      (Forward, Eastern, False), (Forward, Eastern, False), (Forward, Eastern, False),
      (Defense, Eastern, False), (Defense, Eastern, False), (Goalie, Eastern, False)]"
  by (simp add: playersResult_def selectionsOf_def selectionRows_def savedDb_result
      rosterDb_fields mkPlayer_def)

lemma forwardStarsDb_rows:
  "playersResult forwardStarsDb 1 =
     [(Forward, Western, True), (Forward, Western, True), (Forward, Western, True),
      (Defense, Western, False), (Defense, Western, False), (Goalie, Western, False),
      (Forward, Eastern, False), (Forward, Eastern, False), (Forward, Eastern, False),
      (Defense, Eastern, False), (Defense, Eastern, False), (Goalie, Eastern, False)]"
  by (simp add: playersResult_def selectionsOf_def selectionRows_def forwardStarsDb_result
      rosterDb_fields mkPlayer_def)

lemma shortDb_rows:
  "playersResult shortDb 1 =
     [(Forward, Western, True), (Forward, Western, False),
      (Defense, Western, True), (Defense, Western, False), (Goalie, Western, True),
      (Forward, Eastern, False), (Forward, Eastern, False), (Forward, Eastern, False),
      (Defense, Eastern, False), (Defense, Eastern, False), (Goalie, Eastern, False)]"
  by (simp add: playersResult_def selectionsOf_def selectionRows_def shortDb_result
      rosterDb_fields mkPlayer_def)

lemma complete_rows:
  "isComplete (playersResult savedDb 1)" "isComplete (playersResult forwardStarsDb 1)"
  "\<not> isComplete (playersResult shortDb 1)"
  by (simp_all add: isComplete_def counts_def starCount_def savedDb_rows forwardStarsDb_rows
      shortDb_rows)

lemma savedDb_submit:
  "submitRoster savedDb 20 1 ''1'' =
     (Inr (), savedDb\<lparr>rosters := [\<lparr>r_id = 1, r_user_id = 1, r_round = 1, r_is_submitted = True,
                                     r_submitted_at = Some 20\<rparr>]\<rparr>)"
  by (simp add: openRound_submitRoster [OF open_round1 [of savedDb 20] saved_rosters(1)]
      savedDb_result complete_rows markSubmitted_def)

lemma submittedDb_fields:
  "rosters submittedDb = [\<lparr>r_id = 1, r_user_id = 1, r_round = 1, r_is_submitted = True,
                            r_submitted_at = Some 20\<rparr>]"
  "roster_players submittedDb = roster_players savedDb"
  "rounds submittedDb = rounds rosterDb" "users submittedDb = users rosterDb"
  "players submittedDb = players rosterDb" "teams submittedDb = teams rosterDb"
  by (simp_all add: submittedDb_def savedDb_submit savedDb_result)

lemma submittedDb_roster:
  "rosterResult submittedDb 1 1 =
     Some \<lparr>r_id = 1, r_user_id = 1, r_round = 1, r_is_submitted = True,
           r_submitted_at = Some 20\<rparr>"
  "rosterResult submittedDb 2 1 = None"
  by (simp_all add: rosterResult_def submittedDb_fields)

lemma rosterDb_qualifications:
  "team_qualifications rosterDb =
     [\<lparr>tq_round_number = 1, tq_team_abbrev = ''EDM'', tq_qualified = True\<rparr>,
      \<lparr>tq_round_number = 1, tq_team_abbrev = ''FLA'', tq_qualified = True\<rparr>]"
  by (simp add: rosterDb_def)


lemma teamlessPlayers_fields:
  "rounds teamlessPlayers = rounds rosterDb" "users teamlessPlayers = users rosterDb"
  "teams teamlessPlayers = teams rosterDb" "rosters teamlessPlayers = []"
  "roster_players teamlessPlayers = []"
  "team_qualifications teamlessPlayers = team_qualifications rosterDb"
  "players teamlessPlayers = players rosterDb @
     [\<lparr>p_id = 14, p_nhl_id = 8470014, p_team_abbrev = None, p_position = Forward,
       p_cost = 1, p_is_active = True\<rparr>]"
  by (simp_all add: teamlessPlayers_def rosterDb_fields)

lemma teamless_ids:
  "collectPlayerIds teamlessSelections = [1, 2, 13, 14, 4, 5, 6, 7, 8, 9, 10, 11, 12]"
  by (simp add: collectPlayerIds_def positionLists_def teamlessSelections_def)

lemma teamlessDb_result:
  "fst (saveRoster_part006 teamlessPlayers 10 1 ''1'' (Some teamlessSelections)
          (Some roleStars) None) = Inr 1"
  "rosters teamlessDb =
     [\<lparr>r_id = 1, r_user_id = 1, r_round = 1, r_is_submitted = False, r_submitted_at = None\<rparr>]"
  "roster_players teamlessDb =
     map (\<lambda>(pid, star). \<lparr>rp_roster_id = 1, rp_player_id = pid, rp_is_star = star\<rparr>)
       [(1, True), (2, False), (13, False), (14, False), (4, True), (5, False), (6, True),
        (7, False), (8, False), (9, False), (10, False), (11, False), (12, False)]"
  "players teamlessDb = players teamlessPlayers" "teams teamlessDb = teams rosterDb"
  "rounds teamlessDb = rounds rosterDb"
  unfolding teamlessDb_def
    openRound_saveRoster_part006 [OF open_round1 [of teamlessPlayers 10], simplified,
      OF teamlessPlayers_fields(1)]
  by (simp_all add: teamlessPlayers_fields saveTransaction_def rosterResult_def userExists_def
      rosterDb_fields ann_def teamless_ids pgInteger_def
      salaryTotal_def invalidCount_def qualifiedTeams_def rosterDb_qualifications
      mkPlayer_def newRosterId_def newRoster_def SALARY_CAP_def isStarPick_def starValues_def
      roleStars_def Let_def)

lemma teamlessDb_rows:
  "playersResult teamlessDb 1 =
     [(Forward, Western, True), (Forward, Western, False), (Forward, Western, False),
      (Defense, Western, True), (Defense, Western, False), (Goalie, Western, True),
      (Forward, Eastern, False), (Forward, Eastern, False), (Forward, Eastern, False),
      (Defense, Eastern, False), (Defense, Eastern, False), (Goalie, Eastern, False)]"
  by (simp add: playersResult_def selectionsOf_def selectionRows_def teamlessDb_result
      teamlessPlayers_fields rosterDb_fields mkPlayer_def)

lemma teamlessDb_roster:
  "rosterResult teamlessDb 1 1 =
     Some \<lparr>r_id = 1, r_user_id = 1, r_round = 1, r_is_submitted = False, r_submitted_at = None\<rparr>"
  by (simp add: rosterResult_def teamlessDb_result)

lemma savedDb_joinsOnce: "\<forall>rp \<in> set (selectionsOf savedDb 1). joinsOnce savedDb rp"
  by (simp add: selectionsOf_def joinsOnce_def selectionRows_def savedDb_result
      rosterDb_fields mkPlayer_def)

section \<open>The claims on the roster database\<close>

theorem submitted_roster_immutable_witness:
  "saveRoster submittedDb 30 1 ''1'' (Some emptySelections) None None =
     (Inl AlreadySubmitted, submittedDb) \<and>
   length (selectionsOf submittedDb 1) = 12 \<and>
   selectionsOf (snd (saveRoster submittedDb 30 2 ''1'' (Some fullSelections)
                        (Some forwardStars) None)) 1 =
     selectionsOf submittedDb 1"
proof -
  let ?r = "\<lparr>r_id = 1, r_user_id = 1, r_round = 1, r_is_submitted = True,
             r_submitted_at = Some 20\<rparr>"
  have round: "openRound submittedDb 30 ''1'' 1"
    by (rule open_round1) (simp_all add: submittedDb_fields)
  then have parse: "parseInt ''1'' = Some 1" by (simp add: openRound_def)
  have "saveRoster submittedDb 30 1 ''1'' (Some emptySelections) None None =
          (Inl AlreadySubmitted, submittedDb)"
    using submitted_roster_immutable [where db = submittedDb and roundParam = "''1''"
        and round = 1 and userId = 1 and r = ?r and now = 30
        and sel = "Some emptySelections" and st = None and tb = None]
      round parse
    by (simp add: submittedDb_roster)
  moreover have "length (selectionsOf submittedDb 1) = 12"
    by (simp add: selectionsOf_def submittedDb_fields savedDb_result)
  moreover have "selectionsOf (snd (saveRoster submittedDb 30 2 ''1'' (Some fullSelections)
                        (Some forwardStars) None)) 1 = selectionsOf submittedDb 1"
    using submitted_roster_immutable [where db = submittedDb and roundParam = "''1''"
        and round = 1 and userId = 2 and r = ?r and now = 30
        and sel = "Some fullSelections" and st = "Some forwardStars" and tb = None]
    by (simp add: submittedDb_fields)
  ultimately show ?thesis by simp
qed



theorem empty_save_succeeds_witness:
  "saveRoster savedDb 20 1 ''1'' (Some emptySelections) None None =
     (Inr SavedEmpty, savedDb\<lparr>roster_players := []\<rparr>) \<and>
   length (roster_players savedDb) = 12 \<and>
   fst (saveRoster_part006 savedDb 20 1 ''1'' (Some emptySelections) None None) = Inr 1 \<and>
   roster_players (snd (saveRoster_part006 savedDb 20 1 ''1'' (Some emptySelections)
                          None None)) = []"
proof -
  have round: "openRound savedDb 20 ''1'' 1"
    by (rule open_round1) (simp_all add: savedDb_result)
  have user: "userExists savedDb 1"
    using rosterDb_users(1) by (simp add: userExists_def savedDb_result)
  have fit: "answersFit None" by (simp add: answersFit_def)
  show ?thesis
    using empty_save_succeeds [OF round selection_ids(4) user, of None None] fit
    by (simp add: saved_rosters savedDb_result)
qed

text \<open>
  Claim C10 as stated fails. Ann's roster for round 1 is submitted; her save with an
  empty selection set, in the valid and unlocked round 1, is rejected by the mounted
  handler. And the second version answers a server error to an empty save that carries
  a tiebreaker answer too large for the integer column.
\<close>

theorem empty_save_rejected:
  "openRound submittedDb 30 ''1'' 1 \<and> collectPlayerIds emptySelections = [] \<and>
   saveRoster submittedDb 30 1 ''1'' (Some emptySelections) None None =
     (Inl AlreadySubmitted, submittedDb) \<and>
   openRound savedDb 20 ''1'' 1 \<and>
   saveRoster_part006 savedDb 20 1 ''1'' (Some emptySelections) None
       (Some \<lparr>q1 = Some 2147483648, q2 = None\<rparr>) =
     (Inl ServerError, savedDb)"
proof -
  have round: "openRound submittedDb 30 ''1'' 1"
    by (rule open_round1) (simp_all add: submittedDb_fields)
  have round': "openRound savedDb 20 ''1'' 1"
    by (rule open_round1) (simp_all add: savedDb_result)
  have "saveRoster submittedDb 30 1 ''1'' (Some emptySelections) None None =
          (Inl AlreadySubmitted, submittedDb)"
    by (simp add: openRound_saveRoster [OF round] submittedDb_roster)
  moreover have "saveRoster_part006 savedDb 20 1 ''1'' (Some emptySelections) None
       (Some \<lparr>q1 = Some 2147483648, q2 = None\<rparr>) = (Inl ServerError, savedDb)"
    by (simp add: openRound_saveRoster_part006 [OF round'] saveTransaction_def saved_rosters
        selection_ids upsertTiebreakers_def orNull_def pgIntegerOrNull_def pgInteger_def)
  ultimately show ?thesis
    using round round' by (simp add: selection_ids)
qed

theorem submit_requires_composition_witness:
  "fst (submitRoster savedDb 20 1 ''1'') = Inr () \<and>
   length (selectionsOf savedDb 1) = 12 \<and>
   length (filter rp_is_star (selectionsOf savedDb 1)) = 3 \<and>
   counts (playersResult shortDb 1) Western Forward = 2 \<and>
   submitRoster shortDb 20 1 ''1'' = (Inl RosterIncomplete, shortDb) \<and>
   submitRoster_part006 shortDb 20 1 ''1'' = (Inl RosterIncomplete, shortDb)"
proof -
  have ok: "fst (submitRoster savedDb 20 1 ''1'') = Inr ()"
    by (simp add: savedDb_submit)
  then obtain round r where r: "parseInt ''1'' = Some round"
    "rosterResult savedDb 1 round = Some r"
    "(\<forall>rp\<in>set (selectionsOf savedDb (r_id r)). joinsOnce savedDb rp) \<longrightarrow>
       length (selectionsOf savedDb (r_id r)) = 12 \<and>
       length (filter rp_is_star (selectionsOf savedDb (r_id r))) = 3"
    using submit_requires_composition [of savedDb 20 1 "''1''"] by blast
  have "openRound savedDb 20 ''1'' 1"
    by (rule open_round1) (simp_all add: savedDb_result)
  then have "parseInt ''1'' = Some 1" by (simp add: openRound_def)
  with r(1,2) have "r_id r = 1" by (auto simp: saved_rosters)
  with r(3) savedDb_joinsOnce
  have full: "length (selectionsOf savedDb 1) = 12 \<and>
      length (filter rp_is_star (selectionsOf savedDb 1)) = 3"
    by simp
  have short: "counts (playersResult shortDb 1) Western Forward = 2"
    by (simp add: shortDb_rows counts_def)
  have round: "openRound shortDb 20 ''1'' 1"
    by (rule open_round1) (simp_all add: shortDb_result)
  have "submitRoster shortDb 20 1 ''1'' = (Inl RosterIncomplete, shortDb) \<and>
      submitRoster_part006 shortDb 20 1 ''1'' = (Inl RosterIncomplete, shortDb)"
    using submit_requires_composition [where db = shortDb and now = 20 and userId = 1
        and roundParam = "''1''" and round = 1
        and r = "\<lparr>r_id = 1, r_user_id = 1, r_round = 1, r_is_submitted = False,
                  r_submitted_at = None\<rparr>"
        and rows = "playersResult shortDb 1"]
      round short
    by (simp add: saved_rosters)
  with ok full short show ?thesis by simp
qed

text \<open>
  Claim C4 as stated fails twice. Bob's roster has the required composition and three
  starred selections, all of them western forwards, so the defensemen and the
  goaltenders have no star; submit accepts it. And Ann's roster of thirteen selections,
  one of them a player without a team, is accepted too, since the player without a team
  has no row in the query that is counted.
\<close>

theorem submit_accepts_other_rosters:
  "fst (submitRoster forwardStarsDb 20 2 ''1'') = Inr () \<and>
   fst (submitRoster_part006 forwardStarsDb 20 2 ''1'') = Inr () \<and>
   starredRoles (playersResult forwardStarsDb 1) = [Forward, Forward, Forward] \<and>
   fst (submitRoster teamlessDb 20 1 ''1'') = Inr () \<and>
   fst (submitRoster_part006 teamlessDb 20 1 ''1'') = Inr () \<and>
   length (selectionsOf teamlessDb 1) = 13"
proof -
  have round: "openRound forwardStarsDb 20 ''1'' 1"
    by (rule open_round1) (simp_all add: forwardStarsDb_result)
  have round': "openRound teamlessDb 20 ''1'' 1"
    by (rule open_round1) (simp_all add: teamlessDb_result)
  have complete: "isComplete (playersResult teamlessDb 1)"
    by (simp add: isComplete_def counts_def starCount_def teamlessDb_rows)
  have "fst (submitRoster forwardStarsDb 20 2 ''1'') = Inr ()"
    "fst (submitRoster_part006 forwardStarsDb 20 2 ''1'') = Inr ()"
    by (simp_all add: openRound_submitRoster [OF round saved_rosters(2)]
        openRound_submitRoster_part006 [OF round saved_rosters(2)] complete_rows)
  moreover have "starredRoles (playersResult forwardStarsDb 1) = [Forward, Forward, Forward]"
    by (simp add: starredRoles_def forwardStarsDb_rows)
  moreover have "fst (submitRoster teamlessDb 20 1 ''1'') = Inr ()"
    "fst (submitRoster_part006 teamlessDb 20 1 ''1'') = Inr ()"
    by (simp_all add: openRound_submitRoster [OF round' teamlessDb_roster]
        openRound_submitRoster_part006 [OF round' teamlessDb_roster] complete)
  moreover have "length (selectionsOf teamlessDb 1) = 13"
    by (simp add: selectionsOf_def teamlessDb_result)
  ultimately show ?thesis by simp
qed

end
